theory Spec2Isabelle
  imports Complex_Main
begin

section \<open>Python values, exceptions and strings\<close>

text \<open>
  The exceptions the orchestration layer can meet. All of them are subclasses of
  Python's \<open>Exception\<close>, so every \<open>except Exception\<close> handler of the source catches each
  of them. pydantic's \<open>ValidationError\<close> and \<open>json.JSONDecodeError\<close> are subclasses of
  \<open>ValueError\<close>; \<open>is_ValueError\<close> records that.
\<close>

datatype error =
    ValidationError
  | AttributeError
  | KeyError
  | ValueError
  | JSONDecodeError
  | TypeError
  | IndexError
  | ConnectionError
  | TimeoutError
  | OtherException string

fun is_ValueError :: "error \<Rightarrow> bool" where
  "is_ValueError ValueError = True"
| "is_ValueError ValidationError = True"
| "is_ValueError JSONDecodeError = True"
| "is_ValueError _ = False"

text \<open>\<open>str(n)\<close> for a non-negative integer, as the f-strings of the source format a length.\<close>

fun str_nat :: "nat \<Rightarrow> string" where
  "str_nat n =
     (if n < 10 then [''0123456789'' ! n]
      else str_nat (n div 10) @ [''0123456789'' ! (n mod 10)])"

declare str_nat.simps [simp del]

text \<open>
  A text is a sequence of code points below 256 (the characters of \<open>string\<close>). White space
  as \<open>str.strip()\<close> and the pattern \<open>\s\<close> see it there: space, tab, newline, vertical tab,
  form feed, return, the four separators 0x1C to 0x1F, next line (0x85) and no-break space
  (0xA0).
\<close>

definition is_space :: "char \<Rightarrow> bool" where
  "is_space c =
     (c \<in> set [CHR '' '', CHR 0x09, CHR 0x0A, CHR 0x0B, CHR 0x0C, CHR 0x0D,
               CHR 0x1C, CHR 0x1D, CHR 0x1E, CHR 0x1F, CHR 0x85, CHR 0xA0])"

definition strip :: "string \<Rightarrow> string" where
  "strip s = rev (dropWhile is_space (rev (dropWhile is_space s)))"

subsection \<open>Python values\<close>

text \<open>
  JSON values and the Python values built from them. Numbers are reals (an integer and a
  float of the same value behave alike in every test the source makes); a \<open>datetime\<close> is
  kept as its ISO text.
\<close>

datatype pyval =
    PNone
  | PBool bool
  | PNum real
  | PStr string
  | PDatetime string
  | PList "pyval list"
  | PDict "(string \<times> pyval) list"

text \<open>Truth of a value, as \<open>if v\<close>, \<open>not v\<close> and \<open>v or w\<close> test it.\<close>

fun truthy :: "pyval \<Rightarrow> bool" where
  "truthy PNone = False"
| "truthy (PBool b) = b"
| "truthy (PNum x) = (x \<noteq> 0)"
| "truthy (PStr s) = (s \<noteq> [])"
| "truthy (PDatetime s) = True"
| "truthy (PList xs) = (xs \<noteq> [])"
| "truthy (PDict d) = (d \<noteq> [])"

text \<open>\<open>d.get(key, default)\<close> on one key of a dict.\<close>

definition dict_get :: "'a option \<Rightarrow> 'a \<Rightarrow> 'a" where
  "dict_get entry dflt = (case entry of Some v \<Rightarrow> v | None \<Rightarrow> dflt)"

text \<open>Keyword arguments of a call, and an object as its attributes.\<close>

type_synonym kwargs = "(string \<times> pyval) list"

type_synonym pyobj = "(string \<times> pyval) list"

definition bind_err :: "error + 'a \<Rightarrow> ('a \<Rightarrow> error + 'b) \<Rightarrow> error + 'b" where
  "bind_err x f = (case x of Inl e \<Rightarrow> Inl e | Inr v \<Rightarrow> f v)"

text \<open>
  A loop that extends a result list with what each element yields; an exception leaves the
  loop and the function.
\<close>

fun collect :: "('a \<Rightarrow> error + 'b list) \<Rightarrow> 'a list \<Rightarrow> error + 'b list" where
  "collect f [] = Inr []"
| "collect f (x # xs) =
     bind_err (f x) (\<lambda>ys. bind_err (collect f xs) (\<lambda>zs. Inr (ys @ zs)))"

text \<open>The value a decimal text denotes, to say what \<open>str_nat\<close> writes.\<close>

definition digit_of :: "char \<Rightarrow> nat" where
  "digit_of c =
     dict_get
       (map_of [(CHR ''0'', 0), (CHR ''1'', 1), (CHR ''2'', 2), (CHR ''3'', 3), (CHR ''4'', 4),
                (CHR ''5'', 5), (CHR ''6'', 6), (CHR ''7'', 7), (CHR ''8'', 8), (CHR ''9'', 9)] c)
       0"

definition decimal_value :: "string \<Rightarrow> nat" where
  "decimal_value s = foldl (\<lambda>acc c. 10 * acc + digit_of c) 0 s"

section \<open>The cloud connector's metric enumeration\<close>

text \<open>
  \<open>AzureMonitorConnector\<close> (connectors/azure\_monitor.py): the fields \<open>__init__\<close> sets.
  Timestamps are seconds on some clock.
\<close>

record AzureMonitorConnector =
  az_name :: string
  subscription_id :: string
  client_id :: string
  client_secret :: string
  tenant_id :: string
  access_token :: "string option"
  token_expires :: "int option"

definition common_metrics :: "string list" where
  "common_metrics =
     [''Percentage CPU'',
      ''Network In Total'',
      ''Network Out Total'',
      ''Disk Read Bytes'',
      ''Disk Write Bytes'',
      ''Available Memory Bytes'',
      ''Total Requests'',
      ''Response Time'',
      ''Failed Requests'',
      ''Successful Requests'',
      ''CPU Credits Consumed'',
      ''CPU Credits Remaining'',
      ''Data Disk IOPS Consumed Percentage'',
      ''OS Disk IOPS Consumed Percentage'']"

text \<open>
  \<open>AzureMonitorConnector.get_metrics_list\<close>: the method builds the list and returns it. It
  reads no field of \<open>self\<close>, awaits nothing and has no \<open>try\<close>; the model returns the
  result together with the connector, unchanged.
\<close>

definition azure_get_metrics_list ::
  "AzureMonitorConnector \<Rightarrow> (error + string list) \<times> AzureMonitorConnector" where
  "azure_get_metrics_list self = (Inr common_metrics, self)"

section \<open>Response synthesis and its fallback\<close>

text \<open>
  \<open>NLPProcessor._fallback_response\<close>: only the lengths of the two lists and the query text
  are read, so the element types stay polymorphic.
\<close>

definition fallback_response :: "string \<Rightarrow> 'm list \<Rightarrow> 'a list \<Rightarrow> string" where
  "fallback_response query metrics alerts =
     (if alerts \<noteq> [] then
        ''Found '' @ str_nat (length alerts) @
        '' active alerts. The most critical ones need attention.''
      else if metrics \<noteq> [] then
        ''Retrieved '' @ str_nat (length metrics) @
        '' metrics for your query. The data shows recent activity across your monitored services.''
      else
        ''No data found for query '' @ [CHR 0x27] @ query @ [CHR 0x27] @
        ''. Please check if the services are running and metrics are available.'')"

text \<open>
  \<open>NLPProcessor.generate_response\<close>. The \<open>try\<close> block first builds the data summary and
  the prompt (\<open>prompt\<close>: the prompt, or the exception raised while building it), then awaits
  the language model (\<open>llm\<close>: the reply's content for a prompt, or the exception the call or
  the access to \<open>response.choices[0].message.content\<close> raised). Any exception of the block
  is caught and answered by \<open>fallback_response\<close>.
\<close>

definition generate_response ::
  "(error + string) \<Rightarrow> (string \<Rightarrow> error + string) \<Rightarrow> string \<Rightarrow> 'm list \<Rightarrow> 'a list \<Rightarrow> string" where
  "generate_response prompt llm query metrics alerts =
     (case prompt of
        Inl e \<Rightarrow> fallback_response query metrics alerts
      | Inr p \<Rightarrow>
          (case llm p of
             Inl e \<Rightarrow> fallback_response query metrics alerts
           | Inr content \<Rightarrow> strip content))"

section \<open>The connector registry\<close>

text \<open>
  A connector as \<open>ConnectorManager\<close> sees it (connectors/base.py): its name and the outcome
  of the two awaited calls the fan-out makes. \<open>health_check\<close> is the outcome of this
  request's health check (health is recomputed on every call); \<open>query_metrics\<close> maps the
  query and the keyword arguments to the returned samples or to the raised exception
  (a timeout is raised as an exception).
\<close>

record ('k, 'm) connector =
  c_name :: string
  health_check :: "error + bool"
  query_metrics :: "string \<Rightarrow> 'k \<Rightarrow> error + 'm list"

text \<open>
  \<open>ConnectorManager.connectors\<close> is a dict from the configured name to the connector;
  iteration follows insertion order, so the model keeps the items as a list.
\<close>

record ('k, 'm) ConnectorManager =
  connectors :: "(string \<times> ('k, 'm) connector) list"

text \<open>\<open>ConnectorManager.get_healthy_connectors\<close>: a check that raises is logged and skipped.\<close>

fun healthy_loop :: "('k, 'm) connector list \<Rightarrow> ('k, 'm) connector list" where
  "healthy_loop [] = []"
| "healthy_loop (c # cs) =
     (case health_check c of
        Inr True \<Rightarrow> c # healthy_loop cs
      | Inr False \<Rightarrow> healthy_loop cs
      | Inl e \<Rightarrow> healthy_loop cs)"

definition get_healthy_connectors :: "('k, 'm) ConnectorManager \<Rightarrow> ('k, 'm) connector list" where
  "get_healthy_connectors self = healthy_loop (map snd (connectors self))"

text \<open>
  \<open>ConnectorManager.query_all_connectors\<close>: the loop over the healthy connectors, with the
  \<open>results\<close> dict threaded through. An exception of \<open>query_metrics\<close> stores the empty list
  under that connector's name.
\<close>

fun query_loop ::
  "('k, 'm) connector list \<Rightarrow> string \<Rightarrow> 'k \<Rightarrow> (string \<rightharpoonup> 'm list) \<Rightarrow> (string \<rightharpoonup> 'm list)" where
  "query_loop [] query kwargs results = results"
| "query_loop (c # cs) query kwargs results =
     query_loop cs query kwargs
       (results(c_name c \<mapsto>
          (case query_metrics c query kwargs of
             Inr metrics \<Rightarrow> metrics
           | Inl e \<Rightarrow> [])))"

definition query_all_connectors ::
  "('k, 'm) ConnectorManager \<Rightarrow> string \<Rightarrow> 'k \<Rightarrow> (string \<rightharpoonup> 'm list)" where
  "query_all_connectors self query kwargs =
     query_loop (get_healthy_connectors self) query kwargs Map.empty"

text \<open>The entry the fan-out stores for one connector.\<close>

definition entry_of :: "('k, 'm) connector \<Rightarrow> string \<Rightarrow> 'k \<Rightarrow> 'm list" where
  "entry_of c query kwargs =
     (case query_metrics c query kwargs of Inr metrics \<Rightarrow> metrics | Inl e \<Rightarrow> [])"

section \<open>The query parser and the Prometheus translator\<close>

subsection \<open>String operations of the source\<close>

text \<open>
  \<open>str.lower\<close> on code points below 256: the letters A to Z, and the letters 0xC0 to 0xDE
  but the multiplication sign 0xD7, move up by 32; every other character stays.
\<close>

definition upper_letters :: string where
  "upper_letters =
     ''ABCDEFGHIJKLMNOPQRSTUVWXYZ'' @
     [CHR 0xC0, CHR 0xC1, CHR 0xC2, CHR 0xC3, CHR 0xC4, CHR 0xC5, CHR 0xC6, CHR 0xC7,
      CHR 0xC8, CHR 0xC9, CHR 0xCA, CHR 0xCB, CHR 0xCC, CHR 0xCD, CHR 0xCE, CHR 0xCF,
      CHR 0xD0, CHR 0xD1, CHR 0xD2, CHR 0xD3, CHR 0xD4, CHR 0xD5, CHR 0xD6, CHR 0xD8,
      CHR 0xD9, CHR 0xDA, CHR 0xDB, CHR 0xDC, CHR 0xDD, CHR 0xDE]"

definition lower_letters :: string where
  "lower_letters =
     ''abcdefghijklmnopqrstuvwxyz'' @
     [CHR 0xE0, CHR 0xE1, CHR 0xE2, CHR 0xE3, CHR 0xE4, CHR 0xE5, CHR 0xE6, CHR 0xE7,
      CHR 0xE8, CHR 0xE9, CHR 0xEA, CHR 0xEB, CHR 0xEC, CHR 0xED, CHR 0xEE, CHR 0xEF,
      CHR 0xF0, CHR 0xF1, CHR 0xF2, CHR 0xF3, CHR 0xF4, CHR 0xF5, CHR 0xF6, CHR 0xF8,
      CHR 0xF9, CHR 0xFA, CHR 0xFB, CHR 0xFC, CHR 0xFD, CHR 0xFE]"

definition lower_char :: "char \<Rightarrow> char" where
  "lower_char c = (case map_of (zip upper_letters lower_letters) c of Some d \<Rightarrow> d | None \<Rightarrow> c)"

definition lower :: "string \<Rightarrow> string" where
  "lower s = map lower_char s"

fun starts_with :: "string \<Rightarrow> string \<Rightarrow> bool" where
  "starts_with s [] = True"
| "starts_with [] (p # ps) = False"
| "starts_with (c # cs) (p # ps) = (c = p \<and> starts_with cs ps)"

text \<open>\<open>contains p s\<close> is Python's \<open>p in s\<close> on strings.\<close>

fun contains :: "string \<Rightarrow> string \<Rightarrow> bool" where
  "contains p [] = (p = [])"
| "contains p (c # cs) = (starts_with (c # cs) p \<or> contains p cs)"

text \<open>\<open>join sep xs\<close> is \<open>sep.join(xs)\<close>.\<close>

fun join :: "string \<Rightarrow> string list \<Rightarrow> string" where
  "join sep [] = []"
| "join sep [x] = x"
| "join sep (x # y # ys) = x @ sep @ join sep (y # ys)"

text \<open>\<open>replace_first old new s\<close> is \<open>s.replace(old, new, 1)\<close> for a one-character \<open>old\<close>.\<close>

fun replace_first :: "char \<Rightarrow> string \<Rightarrow> string \<Rightarrow> string" where
  "replace_first old new [] = []"
| "replace_first old new (c # cs) =
     (if c = old then new @ cs else c # replace_first old new cs)"

definition is_quote :: "char \<Rightarrow> bool" where
  "is_quote c = (c = CHR 0x22 \<or> c = CHR 0x27)"

text \<open>
  \<open>re.findall(r'["\']([^"\']+)["\']', s)\<close>: scanning from the left, a quote character followed
  by a non-empty run of non-quote characters and a quote character is a match; its group is
  the run, and the scan goes on behind the closing quote.
\<close>

function findall_quoted :: "string \<Rightarrow> string list" where
  "findall_quoted [] = []"
| "findall_quoted (c # cs) =
     (if is_quote c \<and> takeWhile (\<lambda>x. \<not> is_quote x) cs \<noteq> []
         \<and> dropWhile (\<lambda>x. \<not> is_quote x) cs \<noteq> []
      then takeWhile (\<lambda>x. \<not> is_quote x) cs #
           findall_quoted (tl (dropWhile (\<lambda>x. \<not> is_quote x) cs))
      else findall_quoted cs)"
  by pat_completeness auto
termination
proof (relation "measure length")
  show "wf (measure length)"
    by simp
next
  fix c :: char and cs :: string
  have "length (tl (dropWhile (\<lambda>x. \<not> is_quote x) cs)) \<le> length cs"
    using length_dropWhile_le [of "\<lambda>x. \<not> is_quote x" cs] by simp
  then show "(tl (dropWhile (\<lambda>x. \<not> is_quote x) cs), c # cs) \<in> measure length"
    by simp
next
  fix c :: char and cs :: string
  show "(cs, c # cs) \<in> measure length"
    by simp
qed

definition is_digit :: "char \<Rightarrow> bool" where
  "is_digit c = (c \<in> set ''0123456789'')"

definition is_unit :: "char \<Rightarrow> bool" where
  "is_unit c = (c \<in> set ''mhds'')"

text \<open>
  \<open>re.search(r'(\d+)\s*(m|h|d|s)', s)\<close>: the leftmost position where a run of digits, then any
  white space, then one of the four unit letters stand; the result is the two groups. Giving
  back digits or white space never makes the unit letter match, so one attempt per start
  position decides.
\<close>

fun time_search :: "string \<Rightarrow> (string \<times> char) option" where
  "time_search [] = None"
| "time_search (c # cs) =
     (if is_digit c then
        (case dropWhile is_space (dropWhile is_digit cs) of
           [] \<Rightarrow> time_search cs
         | u # rest \<Rightarrow>
             if is_unit u then Some (c # takeWhile is_digit cs, u) else time_search cs)
      else time_search cs)"

subsection \<open>The deterministic stage\<close>

text \<open>\<open>NLPProcessor.metric_patterns\<close>, in the dict's insertion order.\<close>

definition metric_patterns :: "(string \<times> string list) list" where
  "metric_patterns =
     [(''cpu'', [''cpu'', ''processor'', ''computation'']),
      (''memory'', [''memory'', ''ram'', ''mem'']),
      (''disk'', [''disk'', ''storage'', ''io'', ''filesystem'']),
      (''network'', [''network'', ''net'', ''bandwidth'', ''traffic'']),
      (''latency'', [''latency'', ''response time'', ''delay'']),
      (''throughput'', [''throughput'', ''requests per second'', ''rps'', ''qps'']),
      (''errors'', [''error'', ''failure'', ''exception'', ''fault''])]"

text \<open>\<open>any(pattern in text for pattern in patterns)\<close>.\<close>

definition any_in :: "string list \<Rightarrow> string \<Rightarrow> bool" where
  "any_in patterns s = list_ex (\<lambda>pattern. contains pattern s) patterns"

text \<open>
  \<open>NLPProcessor._extract_metrics\<close>. The result is \<open>list(set(matched_metrics))\<close>: the matched
  names, each once, in the iteration order of a Python set, which the language leaves open.
  \<open>list_set\<close> stands for that conversion; \<open>is_list_set\<close> is all the theorems below ask of it.
\<close>

definition is_list_set :: "(string list \<Rightarrow> string list) \<Rightarrow> bool" where
  "is_list_set list_set = (\<forall>xs. set (list_set xs) = set xs \<and> distinct (list_set xs))"

definition category_matches :: "string \<Rightarrow> string list \<Rightarrow> string \<times> string list \<Rightarrow> string list" where
  "category_matches query_lower available_metrics entry =
     (if any_in (snd entry) query_lower
      then take 3 (filter (\<lambda>m. contains (fst entry) (lower m)) available_metrics)
      else [])"

definition extract_metrics ::
  "(string list \<Rightarrow> string list) \<Rightarrow> string \<Rightarrow> string list \<Rightarrow> string list" where
  "extract_metrics list_set query available_metrics =
     (let query_lower = lower query;
          direct = filter (\<lambda>metric. contains (lower metric) query_lower) available_metrics;
          by_category = concat (map (category_matches query_lower available_metrics) metric_patterns)
      in list_set (direct @ by_category))"

text \<open>\<open>NLPProcessor._extract_services\<close>.\<close>

definition extract_services ::
  "(string list \<Rightarrow> string list) \<Rightarrow> string \<Rightarrow> string list \<Rightarrow> string list" where
  "extract_services list_set query available_services =
     (let query_lower = lower query;
          direct = filter (\<lambda>service. contains (lower service) query_lower) available_services;
          quoted = filter (\<lambda>m. m \<in> set available_services) (findall_quoted query)
      in list_set (direct @ quoted))"

text \<open>
  \<open>NLPProcessor._extract_time_range\<close>: the loop over \<open>time_patterns\<close> in insertion order
  (minute, hour, day, week), then the numeric pattern on the lower-cased text, then the
  default.
\<close>

definition extract_time_range :: "string \<Rightarrow> string" where
  "extract_time_range query =
     (let query_lower = lower query in
      if any_in [''last minute'', ''1m'', ''60s''] query_lower then ''1m''
      else if any_in [''last hour'', ''1h'', ''hour ago''] query_lower then ''1h''
      else if any_in [''today'', ''last day'', ''24h'', ''day ago''] query_lower then ''24h''
      else if any_in [''this week'', ''last week'', ''7d'', ''week ago''] query_lower then ''7d''
      else (case time_search query_lower of
              Some (digits, u) \<Rightarrow> digits @ [u]
            | None \<Rightarrow> ''1h''))"

text \<open>\<open>NLPProcessor._extract_aggregation\<close>.\<close>

definition extract_aggregation :: "string \<Rightarrow> string" where
  "extract_aggregation query =
     (let query_lower = lower query in
      if any_in [''average'', ''avg'', ''mean''] query_lower then ''avg''
      else if any_in [''sum'', ''total''] query_lower then ''sum''
      else if any_in [''max'', ''maximum'', ''peak''] query_lower then ''max''
      else if any_in [''min'', ''minimum'', ''lowest''] query_lower then ''min''
      else ''avg'')"

subsection \<open>The language-model stage and the descriptor\<close>

text \<open>
  What the language-model call of \<open>_analyze_intent_with_ai\<close> comes to: the call raised, the
  reply holds no brace-delimited text, \<open>json.loads\<close> raised on it, or it parsed. The parsed
  text starts with a brace, so the value is a JSON object; its keys and values are whatever
  the model wrote: a value can be null, empty, or of a type the prompt did not ask for.
\<close>

datatype llm_intent =
    CallFailed error
  | NoJsonObject
  | InvalidJson
  | JsonObject "(string \<times> pyval) list"

text \<open>
  \<open>NLPProcessor._analyze_intent_with_ai\<close>: every exception is caught inside and answered
  by the empty dict.
\<close>

fun analyze_intent_with_ai :: "llm_intent \<Rightarrow> (string \<times> pyval) list" where
  "analyze_intent_with_ai (CallFailed e) = []"
| "analyze_intent_with_ai NoJsonObject = []"
| "analyze_intent_with_ai InvalidJson = []"
| "analyze_intent_with_ai (JsonObject d) = d"

text \<open>\<open>d.get(key, default)\<close> on a dict, and a list of strings as a value.\<close>

definition py_get :: "(string \<times> pyval) list \<Rightarrow> string \<Rightarrow> pyval \<Rightarrow> pyval" where
  "py_get d key dflt = dict_get (map_of d key) dflt"

definition str_list :: "string list \<Rightarrow> pyval" where
  "str_list xs = PList (map PStr xs)"

text \<open>
  The descriptor \<open>parse_user_query\<close> returns: a dict that always holds these eight keys.
  Seven values come from the model's reply when it has the key, so they can be any value;
  \<open>original_query\<close> is the text itself.
\<close>

record components =
  q_intent :: pyval
  q_metrics :: pyval
  q_services :: pyval
  q_time_range :: pyval
  q_aggregation :: pyval
  q_filters :: pyval
  q_query_type :: pyval
  q_original_query :: string

text \<open>
  \<open>NLPProcessor.parse_user_query\<close>. Nothing in its \<open>try\<close> block raises on string inputs
  (the language-model stage catches its own exceptions, \<open>dict.get\<close> does not raise), so the
  handler that returns the default descriptor is never entered and the function always
  returns the dict built here.
\<close>

definition parse_user_query ::
  "(string list \<Rightarrow> string list) \<Rightarrow> llm_intent \<Rightarrow> string \<Rightarrow> string list \<Rightarrow> string list \<Rightarrow> components" where
  "parse_user_query list_set reply query available_services available_metrics =
     (let intent = analyze_intent_with_ai reply in
      \<lparr>q_intent = py_get intent ''intent'' (PStr ''unknown''),
       q_metrics =
         py_get intent ''metrics'' (str_list (extract_metrics list_set query available_metrics)),
       q_services =
         py_get intent ''services'' (str_list (extract_services list_set query available_services)),
       q_time_range = py_get intent ''time_range'' (PStr (extract_time_range query)),
       q_aggregation = py_get intent ''aggregation'' (PStr (extract_aggregation query)),
       q_filters = py_get intent ''filters'' (PDict []),
       q_query_type = py_get intent ''query_type'' (PStr ''metrics''),
       q_original_query = query\<rparr>)"

text \<open>The descriptor of the deterministic stage alone.\<close>

definition baseline ::
  "(string list \<Rightarrow> string list) \<Rightarrow> string \<Rightarrow> string list \<Rightarrow> string list \<Rightarrow> components" where
  "baseline list_set query available_services available_metrics =
     \<lparr>q_intent = PStr ''unknown'',
      q_metrics = str_list (extract_metrics list_set query available_metrics),
      q_services = str_list (extract_services list_set query available_services),
      q_time_range = PStr (extract_time_range query),
      q_aggregation = PStr (extract_aggregation query),
      q_filters = PDict [],
      q_query_type = PStr ''metrics'',
      q_original_query = query\<rparr>"

text \<open>The keys of the reply that \<open>parse_user_query\<close> reads.\<close>

definition no_override :: "(string \<times> pyval) list \<Rightarrow> bool" where
  "no_override intent =
     list_all (\<lambda>key. map_of intent key = None)
       [''intent'', ''metrics'', ''services'', ''time_range'', ''aggregation'', ''filters'',
        ''query_type'']"

subsection \<open>The Prometheus translator\<close>

text \<open>
  The operations \<open>generate_prometheus_query\<close> applies to the descriptor's values, with the
  exception each raises on a value of another type: iterating (\<open>for m in v\<close>),
  \<open>m.lower()\<close>, \<open>x in v\<close> for a string \<open>x\<close>, \<open>v[0]\<close>.
\<close>

fun py_iter :: "pyval \<Rightarrow> error + pyval list" where
  "py_iter (PList xs) = Inr xs"
| "py_iter (PStr s) = Inr (map (\<lambda>c. PStr [c]) s)"
| "py_iter (PDict d) = Inr (map (\<lambda>kv. PStr (fst kv)) d)"
| "py_iter v = Inl TypeError"

fun py_lower :: "pyval \<Rightarrow> error + string" where
  "py_lower (PStr s) = Inr (lower s)"
| "py_lower v = Inl AttributeError"

fun py_contains :: "string \<Rightarrow> pyval \<Rightarrow> error + bool" where
  "py_contains x (PList xs) = Inr (PStr x \<in> set xs)"
| "py_contains x (PStr s) = Inr (contains x s)"
| "py_contains x (PDict d) = Inr (map_of d x \<noteq> None)"
| "py_contains x v = Inl TypeError"

text \<open>
  \<open>metrics[0]\<close>, as a string. A first element that is no string does not reach this place:
  the three \<open>any(...)\<close> before it called \<open>lower()\<close> on every element.
\<close>

fun first_metric :: "pyval \<Rightarrow> error + string" where
  "first_metric (PList []) = Inl IndexError"
| "first_metric (PList (PStr s # xs)) = Inr s"
| "first_metric (PList (v # xs)) = Inl TypeError"
| "first_metric (PStr []) = Inl IndexError"
| "first_metric (PStr (c # cs)) = Inr [c]"
| "first_metric (PDict d) = Inl KeyError"
| "first_metric v = Inl TypeError"

text \<open>
  \<open>any(word in m.lower() for m in ms)\<close>: it stops at the first element that holds the word;
  an element that is no string raises when it is reached.
\<close>

fun any_lower_contains :: "string \<Rightarrow> pyval list \<Rightarrow> error + bool" where
  "any_lower_contains word [] = Inr False"
| "any_lower_contains word (m # ms) =
     bind_err (py_lower m)
       (\<lambda>l. if contains word l then Inr True else any_lower_contains word ms)"

text \<open>\<open>intent == word or any(word in m.lower() for m in metrics)\<close>.\<close>

definition domain_test :: "string \<Rightarrow> pyval \<Rightarrow> pyval \<Rightarrow> error + bool" where
  "domain_test word intent metrics =
     (if intent = PStr word then Inr True
      else bind_err (py_iter metrics) (any_lower_contains word))"

text \<open>The base expression: the \<open>elif\<close> chain from the cpu case to the last \<open>else\<close>.\<close>

definition base_query_of :: "pyval \<Rightarrow> pyval \<Rightarrow> error + string" where
  "base_query_of intent metrics =
     bind_err (domain_test ''cpu'' intent metrics) (\<lambda>is_cpu.
       if is_cpu then
         bind_err (py_contains ''cpu_usage_percent'' metrics) (\<lambda>exact.
           Inr (if exact then ''cpu_usage_percent'' else ''rate(cpu_seconds_total[5m]) * 100''))
       else
         bind_err (domain_test ''memory'' intent metrics) (\<lambda>is_memory.
           if is_memory then
             bind_err (py_contains ''memory_usage_percent'' metrics) (\<lambda>exact.
               Inr (if exact then ''memory_usage_percent'' else ''memory_working_set_bytes''))
           else
             bind_err (domain_test ''network'' intent metrics) (\<lambda>is_network.
               if is_network then Inr ''rate(network_receive_bytes_total[5m])''
               else if truthy metrics then first_metric metrics
               else Inr ''up'')))"

text \<open>\<open>'|'.join(services)\<close>: every item has to be a string.\<close>

fun str_items :: "pyval list \<Rightarrow> error + string list" where
  "str_items [] = Inr []"
| "str_items (PStr s # vs) = bind_err (str_items vs) (\<lambda>ss. Inr (s # ss))"
| "str_items (v # vs) = Inl TypeError"

definition py_join :: "string \<Rightarrow> pyval \<Rightarrow> error + string" where
  "py_join sep v =
     bind_err (py_iter v) (\<lambda>items. bind_err (str_items items) (\<lambda>ss. Inr (join sep ss)))"

definition add_service_filter :: "pyval \<Rightarrow> string \<Rightarrow> error + string" where
  "add_service_filter services base_query =
     (if truthy services then
        bind_err (py_join ''|'' services) (\<lambda>service_filter.
          Inr (if CHR ''{'' \<in> set base_query
               then replace_first (CHR ''{'') (''{job=~\"'' @ service_filter @ ''\",'') base_query
               else base_query @ ''{job=~\"'' @ service_filter @ ''\"}''))
      else Inr base_query)"

text \<open>
  The lookup \<open>{'avg': 'avg', 'sum': 'sum', 'max': 'max', 'min': 'min'}.get(aggregation, 'avg')\<close>:
  a list or a dict is not hashable and raises.
\<close>

fun agg_func_of :: "pyval \<Rightarrow> error + string" where
  "agg_func_of (PStr s) = Inr (if s \<in> set [''avg'', ''sum'', ''max'', ''min''] then s else ''avg'')"
| "agg_func_of (PList xs) = Inl TypeError"
| "agg_func_of (PDict d) = Inl TypeError"
| "agg_func_of v = Inr ''avg''"

definition add_aggregation :: "pyval \<Rightarrow> pyval \<Rightarrow> string \<Rightarrow> error + string" where
  "add_aggregation aggregation services base_query =
     (if truthy aggregation \<and> aggregation \<noteq> PStr ''raw'' then
        bind_err (agg_func_of aggregation) (\<lambda>agg_func.
          Inr (if truthy services
               then agg_func @ '' by (job) ('' @ base_query @ '')''
               else agg_func @ ''('' @ base_query @ '')''))
      else Inr base_query)"

text \<open>
  The \<open>try\<close> block of \<open>NLPProcessor.generate_prometheus_query\<close>: the two early returns, then
  the base expression, the service filter and the aggregation.
\<close>

definition query_body :: "components \<Rightarrow> error + string option" where
  "query_body c =
     (if \<not> truthy (q_metrics c) \<and> q_intent c \<noteq> PStr ''alerts'' then Inr None
      else if q_intent c = PStr ''alerts'' then Inr (Some ''ALERTS{alertstate=\"firing\"}'')
      else if q_intent c = PStr ''health'' \<or> contains ''health'' (lower (q_original_query c))
        then Inr (Some ''up'')
      else
        bind_err (base_query_of (q_intent c) (q_metrics c)) (\<lambda>base_query.
        bind_err (add_service_filter (q_services c) base_query) (\<lambda>filtered.
        bind_err (add_aggregation (q_aggregation c) (q_services c) filtered) (\<lambda>q.
          Inr (Some q)))))"

text \<open>
  \<open>NLPProcessor.generate_prometheus_query\<close>: an exception of the block is logged and
  answered by \<open>None\<close>.
\<close>

definition generate_prometheus_query :: "components \<Rightarrow> string option" where
  "generate_prometheus_query c = (case query_body c of Inl e \<Rightarrow> None | Inr r \<Rightarrow> r)"

section \<open>Python objects and the pydantic models\<close>

text \<open>
  A pydantic model class (models.py): the fields declared without a default are required,
  the others carry their default. \<open>BaseModel_init\<close> is the constructor call
  \<open>Class(**kwargs)\<close>: it raises \<open>ValidationError\<close> when a required field is not among the
  keyword arguments, ignores keyword arguments that are no field of the class (pydantic's
  default configuration) and fills the defaults. The type checks pydantic makes on the given
  values are left out: no constructor call of the source gets past the required fields.
\<close>

record model_class =
  cls_name :: string
  required_fields :: "string list"
  default_fields :: "(string \<times> pyval) list"

definition BaseModel_init :: "model_class \<Rightarrow> kwargs \<Rightarrow> error + pyobj" where
  "BaseModel_init cls kw =
     (if list_all (\<lambda>f. map_of kw f \<noteq> None) (required_fields cls) then
        Inr (map (\<lambda>f. (f, dict_get (map_of kw f) PNone)) (required_fields cls) @
             map (\<lambda>fd. (fst fd, dict_get (map_of kw (fst fd)) (snd fd))) (default_fields cls))
      else Inl ValidationError)"

text \<open>Attribute access \<open>obj.name\<close>.\<close>

definition getattr :: "pyobj \<Rightarrow> string \<Rightarrow> error + pyval" where
  "getattr obj name = (case map_of obj name of Some v \<Rightarrow> Inr v | None \<Rightarrow> Inl AttributeError)"

text \<open>
  The three model classes of models.py the orchestration layer constructs. \<open>now\<close> is the
  clock reading a \<open>default_factory=datetime.utcnow\<close> takes.
\<close>

definition ChatMessage_class :: "string \<Rightarrow> model_class" where
  "ChatMessage_class now =
     \<lparr>cls_name = ''ChatMessage'',
      required_fields = [''type'', ''content''],
      default_fields = [(''timestamp'', PDatetime now), (''metadata'', PNone)]\<rparr>"

definition MetricData_class :: "string \<Rightarrow> model_class" where
  "MetricData_class now =
     \<lparr>cls_name = ''MetricData'',
      required_fields = [''metric_name'', ''values'', ''query''],
      default_fields = [(''labels'', PDict []), (''timestamp'', PDatetime now),
                        (''unit'', PNone), (''description'', PNone)]\<rparr>"


text \<open>\<open>s.replace(old, new)\<close> for a one-character \<open>old\<close>, and a string dict as a value.\<close>

definition replace_char :: "char \<Rightarrow> string \<Rightarrow> string \<Rightarrow> string" where
  "replace_char old new s = concat (map (\<lambda>c. if c = old then new else [c]) s)"

definition str_dict :: "(string \<times> string) list \<Rightarrow> pyval" where
  "str_dict d = PDict (map (\<lambda>kv. (fst kv, PStr (snd kv))) d)"

text \<open>\<open>d[k] = v\<close> on a dict kept in insertion order.\<close>

fun dict_set :: "(string \<times> 'v) list \<Rightarrow> string \<Rightarrow> 'v \<Rightarrow> (string \<times> 'v) list" where
  "dict_set [] k v = [(k, v)]"
| "dict_set (kv # d) k v = (if fst kv = k then (k, v) # d else kv # dict_set d k v)"

section \<open>The cloud connector's metric parsing\<close>

text \<open>
  The payload of the per-resource metrics endpoint, typed as the API documents it; an
  absent key and a JSON null are both \<open>None\<close>, as \<open>dict.get\<close> makes them.
\<close>

record metric_point =
  pt_timeStamp :: "string option"
  pt_average :: "real option"
  pt_maximum :: "real option"
  pt_minimum :: "real option"
  pt_total :: "real option"

record dimension =
  dim_name :: "string option"
  dim_value :: "string option"

record timeseries =
  ts_metadatavalues :: "dimension list"
  ts_data :: "metric_point list"

record azure_metric =
  am_name :: "string option"
  am_unit :: "string option"
  am_timeseries :: "timeseries list"

text \<open>Python's \<open>a or b\<close> on optional numbers: \<open>None\<close> and zero are false.\<close>

definition py_or :: "real option \<Rightarrow> real option \<Rightarrow> real option" where
  "py_or a b = (case a of None \<Rightarrow> b | Some x \<Rightarrow> if x = 0 then b else Some x)"

text \<open>
  The value of a point:
  \<open>point.get('average') or point.get('maximum') or point.get('minimum') or point.get('total')\<close>.
\<close>

definition point_value :: "metric_point \<Rightarrow> real option" where
  "point_value point =
     py_or (py_or (py_or (pt_average point) (pt_maximum point)) (pt_minimum point)) (pt_total point)"

text \<open>\<open>AzureMonitorConnector._convert_azure_unit\<close>.\<close>

definition convert_azure_unit :: "string \<Rightarrow> string" where
  "convert_azure_unit unit_name =
     dict_get
       (map_of [(''Percent'', ''percent''), (''Count'', ''count''), (''Bytes'', ''bytes''),
                (''Seconds'', ''seconds''), (''BytesPerSecond'', ''bytes_per_second''),
                (''CountPerSecond'', ''per_second''), (''Milliseconds'', ''milliseconds'')]
          unit_name)
       (lower unit_name)"

text \<open>\<open>s.split(sep)\<close> for a one-character separator.\<close>

fun split_on :: "char \<Rightarrow> string \<Rightarrow> string list" where
  "split_on sep [] = [[]]"
| "split_on sep (c # cs) =
     (if c = sep then [] # split_on sep cs
      else (case split_on sep cs of
              [] \<Rightarrow> [[c]]
            | part # parts \<Rightarrow> (c # part) # parts))"

text \<open>\<open>resource_id.split('/')[-2] if '/' in resource_id else 'unknown'\<close>.\<close>

definition resource_type_of :: "string \<Rightarrow> string" where
  "resource_type_of resource_id =
     (if CHR ''/'' \<in> set resource_id then
        (case rev (split_on (CHR ''/'') resource_id) of
           a # b # rest \<Rightarrow> b
         | _ \<Rightarrow> ''unknown'')
      else ''unknown'')"

text \<open>The labels of one time series: its dimensions, then the two resource entries.\<close>

fun add_dimensions :: "dimension list \<Rightarrow> (string \<times> string) list \<Rightarrow> (string \<times> string) list" where
  "add_dimensions [] labels = labels"
| "add_dimensions (d # ds) labels =
     (let name = dict_get (dim_name d) []; v = dict_get (dim_value d) [] in
      add_dimensions ds (if name \<noteq> [] \<and> v \<noteq> [] then dict_set labels name v else labels))"

definition series_labels :: "timeseries \<Rightarrow> string \<Rightarrow> (string \<times> string) list" where
  "series_labels series resource_id =
     dict_set (dict_set (add_dimensions (ts_metadatavalues series) []) ''resource_id'' resource_id)
       ''resource_type'' (resource_type_of resource_id)"

text \<open>
  The body of the loop over the points. \<open>fromisoformat\<close> is \<open>datetime.fromisoformat\<close>: the
  datetime of a text, or the \<open>ValueError\<close> it raises. A point without a time stamp is
  skipped; so is a point whose value is \<open>None\<close>; for the others a \<open>MetricData\<close> is constructed
  from the keyword arguments the source passes.
\<close>

definition parse_point ::
  "(string \<Rightarrow> error + pyval) \<Rightarrow> string \<Rightarrow> string \<Rightarrow> string \<Rightarrow> (string \<times> string) list \<Rightarrow>
   metric_point \<Rightarrow> error + pyobj list" where
  "parse_point fromisoformat now metric_name unit_name labels point =
     (case pt_timeStamp point of
        None \<Rightarrow> Inr []
      | Some timestamp_str \<Rightarrow>
          if timestamp_str = [] then Inr []
          else
            bind_err (fromisoformat (replace_char (CHR ''Z'') ''+00:00'' timestamp_str))
              (\<lambda>timestamp.
                 case point_value point of
                   None \<Rightarrow> Inr []
                 | Some v \<Rightarrow>
                     bind_err
                       (BaseModel_init (MetricData_class now)
                          [(''name'', PStr metric_name), (''value'', PNum v),
                           (''timestamp'', timestamp), (''labels'', str_dict labels),
                           (''unit'', PStr (convert_azure_unit unit_name))])
                       (\<lambda>metric. Inr [metric])))"

text \<open>\<open>AzureMonitorConnector._parse_azure_metrics\<close>, on the list under the key \<open>value\<close>.\<close>

definition parse_azure_metrics ::
  "(string \<Rightarrow> error + pyval) \<Rightarrow> string \<Rightarrow> azure_metric list \<Rightarrow> string \<Rightarrow> error + pyobj list" where
  "parse_azure_metrics fromisoformat now data resource_id =
     collect
       (\<lambda>metric.
          collect
            (\<lambda>series.
               collect
                 (parse_point fromisoformat now (dict_get (am_name metric) ''unknown'')
                    (dict_get (am_unit metric) ''count'') (series_labels series resource_id))
                 (ts_data series))
            (am_timeseries metric))
       data"

section \<open>Alert parsing of the two connectors\<close>


text \<open>
  An alert of the cloud alerts-management endpoint: the dict under
  \<open>properties.essentials\<close> (empty when absent) and \<open>properties.context.description\<close>.
\<close>

record azure_alert =
  al_essentials :: "(string \<times> string) list"
  al_description :: "string option"

text \<open>The \<open>severity=\<close> argument of the cloud connector: \<open>essentials.get('severity', 'Sev3').lower()\<close>.\<close>

definition azure_severity :: "(string \<times> string) list \<Rightarrow> string" where
  "azure_severity essentials = lower (dict_get (map_of essentials ''severity'') ''Sev3'')"




text \<open>An alert of the Alertmanager API: \<open>status.state\<close>, labels, annotations, \<open>startsAt\<close>.\<close>

record alertmanager_alert =
  pa_state :: "string option"
  pa_labels :: "(string \<times> string) list"
  pa_annotations :: "(string \<times> string) list"
  pa_startsAt :: "string option"

text \<open>The \<open>severity=\<close> argument of the Prometheus connector: \<open>labels.get('severity', 'warning')\<close>.\<close>

definition alertmanager_severity :: "(string \<times> string) list \<Rightarrow> string" where
  "alertmanager_severity labels = dict_get (map_of labels ''severity'') ''warning''"








text \<open>The three severities of the specification.\<close>

definition normalized_severities :: "string list" where
  "normalized_severities = [''critical'', ''warning'', ''info'']"


section \<open>The conversation engine\<close>

subsection \<open>The session store\<close>

text \<open>
  The Redis lists the engine uses, as state: for every key its list, head first, and its
  time to live. An element is a text that \<open>json.loads\<close> decodes to a value (\<open>Json\<close>) or
  rejects (\<open>Raw\<close>); \<open>json.dumps\<close> produces the first kind. The store is taken as reachable:
  its commands do not raise.
\<close>

datatype stored = Raw string | Json pyval

record redis =
  lists :: "string \<Rightarrow> stored list"
  expiry :: "string \<Rightarrow> nat option"

text \<open>
  The elements Redis addresses by \<open>start\<close> and \<open>stop\<close>: both ends count, a negative index
  counts from the end, and an index out of range is clamped.
\<close>

definition redis_range :: "'a list \<Rightarrow> int \<Rightarrow> int \<Rightarrow> 'a list" where
  "redis_range xs start stop =
     (let n = int (length xs);
          s = (if start < 0 then max 0 (n + start) else start);
          e = (if stop < 0 then n + stop else min stop (n - 1))
      in if e < s \<or> n \<le> s then [] else take (nat (e - s + 1)) (drop (nat s) xs))"

definition lpush :: "redis \<Rightarrow> string \<Rightarrow> stored \<Rightarrow> redis" where
  "lpush r key v = r\<lparr>lists := (lists r)(key := v # lists r key)\<rparr>"

definition ltrim :: "redis \<Rightarrow> string \<Rightarrow> int \<Rightarrow> int \<Rightarrow> redis" where
  "ltrim r key start stop = r\<lparr>lists := (lists r)(key := redis_range (lists r key) start stop)\<rparr>"

definition expire :: "redis \<Rightarrow> string \<Rightarrow> nat \<Rightarrow> redis" where
  "expire r key seconds =
     (if lists r key = [] then r else r\<lparr>expiry := (expiry r)(key \<mapsto> seconds)\<rparr>)"

definition lrange :: "redis \<Rightarrow> string \<Rightarrow> int \<Rightarrow> int \<Rightarrow> stored list" where
  "lrange r key start stop = redis_range (lists r key) start stop"

definition max_conversation_length :: nat where
  "max_conversation_length = 50"

definition context_retention_hours :: nat where
  "context_retention_hours = 24"

subsection \<open>Storing and reading messages\<close>

text \<open>\<open>datetime.isoformat\<close>, \<open>d[key]\<close> and \<open>json.loads\<close>.\<close>

fun isoformat :: "pyval \<Rightarrow> error + string" where
  "isoformat (PDatetime s) = Inr s"
| "isoformat v = Inl AttributeError"

fun subscript :: "pyval \<Rightarrow> string \<Rightarrow> error + pyval" where
  "subscript (PDict d) key = (case map_of d key of Some v \<Rightarrow> Inr v | None \<Rightarrow> Inl KeyError)"
| "subscript v key = Inl TypeError"

fun json_loads :: "stored \<Rightarrow> error + pyval" where
  "json_loads (Raw s) = Inl JSONDecodeError"
| "json_loads (Json v) = Inr v"

text \<open>
  The dict \<open>_store_message\<close> builds from the message, entry by entry in the order of the
  source; reading an attribute the object does not have raises \<open>AttributeError\<close>.
\<close>

definition message_data :: "pyobj \<Rightarrow> error + pyval" where
  "message_data message =
     bind_err (getattr message ''content'') (\<lambda>content.
     bind_err (getattr message ''sender'') (\<lambda>sender.
     bind_err (getattr message ''timestamp'') (\<lambda>timestamp.
     bind_err (isoformat timestamp) (\<lambda>iso.
     bind_err (getattr message ''metadata'') (\<lambda>metadata.
       Inr (PDict [(''content'', content), (''sender'', sender), (''timestamp'', PStr iso),
                   (''metadata'', if truthy metadata then metadata else PDict [])]))))))"

text \<open>
  \<open>ConversationEngine._store_message\<close>: push to the head, trim to the newest
  \<open>max_conversation_length\<close> elements, refresh the expiry. Any exception is logged and the
  store stays as it is.
\<close>

definition store_message :: "redis \<Rightarrow> string \<Rightarrow> pyobj \<Rightarrow> redis" where
  "store_message r session_id message =
     (let key = ''conversation:'' @ session_id in
      case message_data message of
        Inl e \<Rightarrow> r
      | Inr data \<Rightarrow>
          expire (ltrim (lpush r key (Json data)) key 0 (int max_conversation_length - 1)) key
            (context_retention_hours * 3600))"

text \<open>
  One pass of the loop of \<open>_get_conversation_history\<close>: decode the element, read the three
  keys, parse the time stamp and construct the \<open>ChatMessage\<close>.
\<close>

definition load_message ::
  "(string \<Rightarrow> error + pyval) \<Rightarrow> string \<Rightarrow> stored \<Rightarrow> error + pyobj" where
  "load_message fromisoformat now msg_data =
     bind_err (json_loads msg_data) (\<lambda>msg_dict.
     bind_err (subscript msg_dict ''content'') (\<lambda>content.
     bind_err (subscript msg_dict ''sender'') (\<lambda>sender.
     bind_err (subscript msg_dict ''timestamp'') (\<lambda>t.
     bind_err (case t of PStr s \<Rightarrow> fromisoformat s | _ \<Rightarrow> Inl TypeError) (\<lambda>timestamp.
       BaseModel_init (ChatMessage_class now)
         [(''content'', content), (''sender'', sender), (''timestamp'', timestamp),
          (''metadata'', (case subscript msg_dict ''metadata'' of Inr v \<Rightarrow> v | Inl e \<Rightarrow> PNone))])))))"

text \<open>
  The loop: a \<open>JSONDecodeError\<close> or a \<open>KeyError\<close> skips the element, any other exception
  leaves the loop.
\<close>

fun history_loop ::
  "(string \<Rightarrow> error + pyval) \<Rightarrow> string \<Rightarrow> stored list \<Rightarrow> pyobj list \<Rightarrow> error + pyobj list" where
  "history_loop fromisoformat now [] messages = Inr messages"
| "history_loop fromisoformat now (msg_data # rest) messages =
     (case load_message fromisoformat now msg_data of
        Inr message \<Rightarrow> history_loop fromisoformat now rest (messages @ [message])
      | Inl e \<Rightarrow>
          if e = JSONDecodeError \<or> e = KeyError
          then history_loop fromisoformat now rest messages
          else Inl e)"

text \<open>
  \<open>ConversationEngine._get_conversation_history\<close>: the newest \<open>limit\<close> elements, reversed
  into chronological order; any exception that leaves the loop gives the empty list.
\<close>

definition get_conversation_history ::
  "(string \<Rightarrow> error + pyval) \<Rightarrow> string \<Rightarrow> redis \<Rightarrow> string \<Rightarrow> int \<Rightarrow> pyobj list" where
  "get_conversation_history fromisoformat now r session_id limit =
     (case history_loop fromisoformat now
             (lrange r (''conversation:'' @ session_id) 0 (limit - 1)) [] of
        Inl e \<Rightarrow> []
      | Inr messages \<Rightarrow> rev messages)"

subsection \<open>One turn\<close>

text \<open>\<open>str(e)\<close>, as far as the model tells exceptions apart.\<close>

fun str_error :: "error \<Rightarrow> string" where
  "str_error ValidationError = ''1 validation error for ChatMessage''"
| "str_error AttributeError = ''AttributeError''"
| "str_error KeyError = ''KeyError''"
| "str_error ValueError = ''ValueError''"
| "str_error JSONDecodeError = ''JSONDecodeError''"
| "str_error TypeError = ''TypeError''"
| "str_error IndexError = ''IndexError''"
| "str_error ConnectionError = ''ConnectionError''"
| "str_error TimeoutError = ''TimeoutError''"
| "str_error (OtherException s) = s"

text \<open>
  The \<open>except\<close> block of \<open>process_message\<close>: it constructs the error message, stores it and
  returns it. An exception raised here has no handler and reaches the caller.
\<close>

definition process_message_except ::
  "string \<Rightarrow> redis \<Rightarrow> string \<Rightarrow> error \<Rightarrow> (error + pyobj) \<times> redis" where
  "process_message_except now r session_id e =
     (case BaseModel_init (ChatMessage_class now)
             [(''content'',
                 PStr (''I encountered an error processing your request: '' @ str_error e @
                       ''. Please try rephrasing your question.'')),
              (''sender'', PStr ''assistant''),
              (''timestamp'', PDatetime now),
              (''metadata'', PDict [(''error'', PStr (str_error e))])] of
        Inl e' \<Rightarrow> (Inl e', r)
      | Inr error_message \<Rightarrow> (Inr error_message, store_message r session_id error_message))"

text \<open>
  \<open>ConversationEngine.process_message\<close>. \<open>respond\<close> stands for the middle of the \<open>try\<close>
  block (the enumeration of services and metrics, the parser and the query execution): from
  the history it gives the response text and the parsed query, or the exception it raised.
\<close>

definition process_message ::
  "(string \<Rightarrow> error + pyval) \<Rightarrow> string \<Rightarrow> (pyobj list \<Rightarrow> error + string \<times> pyval) \<Rightarrow> string list \<Rightarrow>
   redis \<Rightarrow> string \<Rightarrow> string \<Rightarrow> (error + pyobj) \<times> redis" where
  "process_message fromisoformat now respond connector_names r message session_id =
     (case BaseModel_init (ChatMessage_class now)
             [(''content'', PStr message), (''sender'', PStr ''user''),
              (''timestamp'', PDatetime now)] of
        Inl e \<Rightarrow> process_message_except now r session_id e
      | Inr user_message \<Rightarrow>
          (let r1 = store_message r session_id user_message;
               conversation_history = get_conversation_history fromisoformat now r1 session_id 10
           in case respond conversation_history of
                Inl e \<Rightarrow> process_message_except now r1 session_id e
              | Inr (response_content, parsed_query) \<Rightarrow>
                  (case BaseModel_init (ChatMessage_class now)
                          [(''content'', PStr response_content), (''sender'', PStr ''assistant''),
                           (''timestamp'', PDatetime now),
                           (''metadata'',
                              PDict [(''parsed_query'', parsed_query),
                                     (''connectors_used'', PList (map PStr connector_names))])] of
                     Inl e \<Rightarrow> process_message_except now r1 session_id e
                   | Inr assistant_message \<Rightarrow>
                       (Inr assistant_message, store_message r1 session_id assistant_message))))"

section \<open>Example inputs\<close>

text \<open>A registry of three connectors: one whose query times out, one that answers, one that is down.\<close>

definition prometheus_up :: "(unit, nat) connector" where
  "prometheus_up =
     \<lparr>c_name = ''prometheus'', health_check = Inr True,
      query_metrics = (\<lambda>q k. Inl TimeoutError)\<rparr>"

definition azure_up :: "(unit, nat) connector" where
  "azure_up =
     \<lparr>c_name = ''azure_monitor'', health_check = Inr True,
      query_metrics = (\<lambda>q k. Inr [4, 2])\<rparr>"

definition loki_down :: "(unit, nat) connector" where
  "loki_down =
     \<lparr>c_name = ''loki'', health_check = Inl ConnectionError,
      query_metrics = (\<lambda>q k. Inr [9])\<rparr>"

definition three_connectors :: "(unit, nat) ConnectorManager" where
  "three_connectors =
     \<lparr>connectors = [(''prometheus'', prometheus_up), (''azure_monitor'', azure_up),
                     (''loki'', loki_down)]\<rparr>"

text \<open>The text of the memory-usage scenario.\<close>

definition scenario_query :: string where
  "scenario_query = ''what's the memory usage for service 'checkout'' @ [CHR 0x27]"

text \<open>Two points of a metrics payload whose average is zero.\<close>

definition zero_average_point :: metric_point where
  "zero_average_point =
     \<lparr>pt_timeStamp = Some ''2024-01-01T00:00:00Z'', pt_average = Some 0, pt_maximum = Some 5,
      pt_minimum = None, pt_total = None\<rparr>"

definition only_zero_point :: metric_point where
  "only_zero_point =
     \<lparr>pt_timeStamp = Some ''2024-01-01T00:01:00Z'', pt_average = Some 0, pt_maximum = None,
      pt_minimum = None, pt_total = None\<rparr>"


definition sev1_alert :: azure_alert where
  "sev1_alert =
     \<lparr>al_essentials = [(''alertRule'', ''HighCpu''), (''severity'', ''Sev1''),
                       (''firedDateTime'', ''2024-01-01T00:00:00Z'')],
      al_description = Some ''CPU above 90 percent''\<rparr>"

definition page_alert :: alertmanager_alert where
  "page_alert =
     \<lparr>pa_state = Some ''active'',
      pa_labels = [(''alertname'', ''DiskFull''), (''severity'', ''page''), (''job'', ''db'')],
      pa_annotations = [(''summary'', ''disk is full'')],
      pa_startsAt = Some ''2024-01-01T00:00:00Z''\<rparr>"

text \<open>A \<open>ChatMessage\<close> as models.py declares it: \<open>ChatMessage(type="user", content="hello")\<close>.\<close>

definition hello_message :: pyobj where
  "hello_message =
     [(''type'', PStr ''user''), (''content'', PStr ''hello''),
      (''timestamp'', PDatetime ''2024-06-01T12:00:00''), (''metadata'', PNone)]"

section \<open>Properties\<close>

subsection \<open>The cloud connector's metric enumeration is a constant\<close>

lemma length_common_metrics: "length common_metrics = 14"
  by (simp add: common_metrics_def)

text \<open>
  C10. \<open>AzureMonitorConnector.get_metrics_list\<close> returns, for every state of the connector
  (credentials, cached token, expiry), the same fixed list of 14 names that begins with
  "Percentage CPU"; it never raises and leaves the connector unchanged, so calling it again
  gives the same list.
\<close>

theorem azure_get_metrics_list_constant:
  "azure_get_metrics_list self =
     (Inr [''Percentage CPU'', ''Network In Total'', ''Network Out Total'', ''Disk Read Bytes'',
           ''Disk Write Bytes'', ''Available Memory Bytes'', ''Total Requests'', ''Response Time'',
           ''Failed Requests'', ''Successful Requests'', ''CPU Credits Consumed'',
           ''CPU Credits Remaining'', ''Data Disk IOPS Consumed Percentage'',
           ''OS Disk IOPS Consumed Percentage''], self)
   \<and> length common_metrics = 14
   \<and> hd common_metrics = ''Percentage CPU''
   \<and> azure_get_metrics_list (snd (azure_get_metrics_list self)) = azure_get_metrics_list self
   \<and> fst (azure_get_metrics_list self) = fst (azure_get_metrics_list other)"
  by (simp add: azure_get_metrics_list_def common_metrics_def)

subsection \<open>The synthesis fallback\<close>

lemma str_nat_not_empty: "str_nat n \<noteq> []"
  by (subst str_nat.simps) simp

lemma digit_nth:
  assumes "k < 10"
  shows "digit_of (''0123456789'' ! k) = k" and "is_digit (''0123456789'' ! k)"
proof -
  from assms have "k = 0 \<or> k = 1 \<or> k = 2 \<or> k = 3 \<or> k = 4 \<or> k = 5 \<or> k = 6 \<or> k = 7 \<or> k = 8 \<or> k = 9"
    by arith
  then show "digit_of (''0123456789'' ! k) = k" and "is_digit (''0123456789'' ! k)"
    by (auto simp: digit_of_def dict_get_def is_digit_def)
qed

lemma decimal_value_snoc: "decimal_value (s @ [c]) = 10 * decimal_value s + digit_of c"
  by (simp add: decimal_value_def)

text \<open>\<open>str_nat\<close> writes the decimal digits of its argument.\<close>

lemma decimal_str_nat: "decimal_value (str_nat n) = n \<and> list_all is_digit (str_nat n)"
proof (induction n rule: str_nat.induct)
  case (1 n)
  show ?case
  proof (cases "n < 10")
    case True
    then show ?thesis
      by (subst (1 2) str_nat.simps) (simp add: decimal_value_def digit_nth)
  next
    case False
    have m: "n mod 10 < 10"
      by simp
    from False 1 have ih: "decimal_value (str_nat (n div 10)) = n div 10"
      "list_all is_digit (str_nat (n div 10))"
      by simp_all
    show ?thesis
      using False ih
      by (subst (1 2) str_nat.simps) (simp add: decimal_value_snoc digit_nth [OF m])
  qed
qed

lemma str_nat_3: "str_nat 3 = ''3''"
  by (simp add: str_nat.simps)

text \<open>
  C7. Whenever the \<open>try\<close> block of \<open>generate_response\<close> fails, be it the language-model call
  or the building of the prompt before it, the function returns the fallback built from the
  counts alone: with at least one alert the sentence with the number of alerts, otherwise
  with at least one metric the sentence with the number of metrics ("Retrieved 3 metrics"
  for three of them), with neither the no-data sentence. The numbers are the decimal texts
  of the two lengths. The result is a string (no exception escapes) and it is never empty.
\<close>

theorem generate_response_fallback:
  assumes "prompt = Inl e \<or> (prompt = Inr p \<and> llm p = Inl e)"
  shows "generate_response prompt llm query metrics alerts = fallback_response query metrics alerts
    \<and> generate_response prompt llm query metrics alerts \<noteq> []
    \<and> (alerts \<noteq> [] \<longrightarrow>
         generate_response prompt llm query metrics alerts =
           ''Found '' @ str_nat (length alerts) @
           '' active alerts. The most critical ones need attention.'')
    \<and> (alerts = [] \<and> metrics \<noteq> [] \<longrightarrow>
         generate_response prompt llm query metrics alerts =
           ''Retrieved '' @ str_nat (length metrics) @
           '' metrics for your query. The data shows recent activity across your monitored services.'')
    \<and> (alerts = [] \<and> length metrics = 3 \<longrightarrow>
         generate_response prompt llm query metrics alerts =
           ''Retrieved 3 metrics for your query. The data shows recent activity across your monitored services.'')
    \<and> (alerts = [] \<and> metrics = [] \<longrightarrow>
         generate_response prompt llm query metrics alerts =
           ''No data found for query '' @ [CHR 0x27] @ query @ [CHR 0x27] @
           ''. Please check if the services are running and metrics are available.'')
    \<and> decimal_value (str_nat (length metrics)) = length metrics
    \<and> decimal_value (str_nat (length alerts)) = length alerts
    \<and> list_all is_digit (str_nat (length metrics))
    \<and> list_all is_digit (str_nat (length alerts))"
proof -
  have fb: "generate_response prompt llm query metrics alerts = fallback_response query metrics alerts"
    using assms by (auto simp: generate_response_def)
  have three: "length metrics = 3 \<Longrightarrow> metrics \<noteq> []"
    by auto
  have sentences: "fallback_response query metrics alerts \<noteq> []
    \<and> (alerts \<noteq> [] \<longrightarrow>
         fallback_response query metrics alerts =
           ''Found '' @ str_nat (length alerts) @
           '' active alerts. The most critical ones need attention.'')
    \<and> (alerts = [] \<and> metrics \<noteq> [] \<longrightarrow>
         fallback_response query metrics alerts =
           ''Retrieved '' @ str_nat (length metrics) @
           '' metrics for your query. The data shows recent activity across your monitored services.'')
    \<and> (alerts = [] \<and> length metrics = 3 \<longrightarrow>
         fallback_response query metrics alerts =
           ''Retrieved 3 metrics for your query. The data shows recent activity across your monitored services.'')
    \<and> (alerts = [] \<and> metrics = [] \<longrightarrow>
         fallback_response query metrics alerts =
           ''No data found for query '' @ [CHR 0x27] @ query @ [CHR 0x27] @
           ''. Please check if the services are running and metrics are available.'')"
    using three by (auto simp: fallback_response_def str_nat_3 str_nat_not_empty)
  show ?thesis
    unfolding fb using sentences decimal_str_nat [of "length metrics"]
      decimal_str_nat [of "length alerts"]
    by blast
qed

theorem generate_response_fallback_witness:
  "generate_response (Inl AttributeError) (\<lambda>p. Inr ''All systems are fine.'') ''cpu of api''
       [1::nat, 2, 3, 4, 5, 6, 7] ([]::nat list) =
     ''Retrieved 7 metrics for your query. The data shows recent activity across your monitored services.''
   \<and> generate_response (Inr ''prompt'') (\<lambda>p. Inl TimeoutError) ''cpu of api''
       [1::nat, 2, 3] ([]::nat list) =
     ''Retrieved 3 metrics for your query. The data shows recent activity across your monitored services.''
   \<and> generate_response (Inr ''prompt'') (\<lambda>p. Inl TimeoutError) ''cpu of api''
       [1::nat] [1::nat, 2, 3, 4, 5, 6, 7, 8, 9, 10, 11, 12] =
     ''Found 12 active alerts. The most critical ones need attention.''
   \<and> generate_response (Inr ''prompt'') (\<lambda>p. Inl TimeoutError) ''cpu of api''
       ([]::nat list) ([]::nat list) =
     ''No data found for query 'cpu of api'. Please check if the services are running and metrics are available.''"
proof -
  let ?ok = "\<lambda>p::string. (Inr ''All systems are fine.'' :: error + string)"
  let ?llm = "\<lambda>p::string. (Inl TimeoutError :: error + string)"
  have a: "(Inl AttributeError :: error + string) = Inl AttributeError
      \<or> ((Inl AttributeError :: error + string) = Inr ''prompt'' \<and> ?ok ''prompt'' = Inl AttributeError)"
    by simp
  have b: "(Inr ''prompt'' :: error + string) = Inl TimeoutError
      \<or> ((Inr ''prompt'' :: error + string) = Inr ''prompt'' \<and> ?llm ''prompt'' = Inl TimeoutError)"
    by simp
  note seven = generate_response_fallback [where prompt = "Inl AttributeError" and llm = ?ok
      and p = "''prompt''" and e = AttributeError and query = "''cpu of api''"
      and metrics = "[1::nat, 2, 3, 4, 5, 6, 7]" and alerts = "[]::nat list", OF a]
  note three = generate_response_fallback [where prompt = "Inr ''prompt''" and llm = ?llm
      and p = "''prompt''" and e = TimeoutError and query = "''cpu of api''"
      and metrics = "[1::nat, 2, 3]" and alerts = "[]::nat list", OF b]
  note twelve = generate_response_fallback [where prompt = "Inr ''prompt''" and llm = ?llm
      and p = "''prompt''" and e = TimeoutError and query = "''cpu of api''"
      and metrics = "[1::nat]" and alerts = "[1::nat, 2, 3, 4, 5, 6, 7, 8, 9, 10, 11, 12]", OF b]
  note none = generate_response_fallback [where prompt = "Inr ''prompt''" and llm = ?llm
      and p = "''prompt''" and e = TimeoutError and query = "''cpu of api''"
      and metrics = "[]::nat list" and alerts = "[]::nat list", OF b]
  have n7: "str_nat (length [1::nat, 2, 3, 4, 5, 6, 7]) = ''7''"
    by (simp add: str_nat.simps)
  have n12: "str_nat (length [1::nat, 2, 3, 4, 5, 6, 7, 8, 9, 10, 11, 12]) = ''12''"
    by (simp add: str_nat.simps)
  have c1: "generate_response (Inl AttributeError) ?ok ''cpu of api''
       [1::nat, 2, 3, 4, 5, 6, 7] ([]::nat list) =
     ''Retrieved 7 metrics for your query. The data shows recent activity across your monitored services.''"
    using seven [THEN conjunct2, THEN conjunct2, THEN conjunct2, THEN conjunct1] n7 by simp
  have c2: "generate_response (Inr ''prompt'') ?llm ''cpu of api'' [1::nat, 2, 3] ([]::nat list) =
     ''Retrieved 3 metrics for your query. The data shows recent activity across your monitored services.''"
    using three [THEN conjunct2, THEN conjunct2, THEN conjunct2, THEN conjunct2, THEN conjunct1]
    by simp
  have c3: "generate_response (Inr ''prompt'') ?llm ''cpu of api''
       [1::nat] [1::nat, 2, 3, 4, 5, 6, 7, 8, 9, 10, 11, 12] =
     ''Found 12 active alerts. The most critical ones need attention.''"
    using twelve [THEN conjunct2, THEN conjunct2, THEN conjunct1] n12 by simp
  have c4: "generate_response (Inr ''prompt'') ?llm ''cpu of api'' ([]::nat list) ([]::nat list) =
     ''No data found for query 'cpu of api'. Please check if the services are running and metrics are available.''"
    using none [THEN conjunct2, THEN conjunct2, THEN conjunct2, THEN conjunct2, THEN conjunct2,
        THEN conjunct1]
    by simp
  show ?thesis
    using c1 c2 c3 c4 by blast
qed

subsection \<open>The fan-out over healthy connectors\<close>

lemma healthy_loop_filter:
  "healthy_loop cs = filter (\<lambda>c. health_check c = Inr True) cs"
  by (induction cs) (simp_all split: sum.split bool.split)

lemma set_healthy_loop:
  "set (healthy_loop cs) = {c \<in> set cs. health_check c = Inr True}"
  by (simp add: healthy_loop_filter)

lemma dom_query_loop:
  "dom (query_loop cs query kwargs results) = dom results \<union> c_name ` set cs"
  by (induction cs arbitrary: results) auto

lemma query_loop_other:
  "n \<notin> c_name ` set cs \<Longrightarrow> query_loop cs query kwargs results n = results n"
  by (induction cs arbitrary: results) auto

lemma query_loop_entry:
  "distinct (map c_name cs) \<Longrightarrow> c \<in> set cs \<Longrightarrow>
   query_loop cs query kwargs results (c_name c) = Some (entry_of c query kwargs)"
proof (induction cs arbitrary: results)
  case Nil
  then show ?case by simp
next
  case (Cons d ds)
  show ?case
  proof (cases "c = d")
    case True
    have "c_name d \<notin> c_name ` set ds"
      using Cons.prems(1) by auto
    then show ?thesis
      using True by (simp add: query_loop_other entry_of_def)
  next
    case False
    then have "c \<in> set ds"
      using Cons.prems(2) by simp
    moreover have "distinct (map c_name ds)"
      using Cons.prems(1) by simp
    ultimately show ?thesis
      using Cons.IH by simp
  qed
qed

lemma distinct_healthy_loop:
  "distinct (map c_name cs) \<Longrightarrow> distinct (map c_name (healthy_loop cs))"
  by (simp add: healthy_loop_filter distinct_map_filter)

text \<open>
  C1. For a configured connector set (connector names pairwise different, as the registry's
  dict keys are), every query and all keyword arguments, \<open>query_all_connectors\<close> returns a map
  whose keys are exactly the names of the connectors whose health check returned true (one
  entry each); the entry of a healthy connector is what its \<open>query_metrics\<close> returned, or the
  empty list when that call raised (a timeout included), whatever the other connectors did;
  a connector whose health check returned false or raised has no entry.
\<close>

theorem query_all_connectors_entries:
  assumes "distinct (map (c_name \<circ> snd) (connectors self))"
  shows "dom (query_all_connectors self query kwargs) =
           c_name ` {c \<in> snd ` set (connectors self). health_check c = Inr True}
    \<and> card (dom (query_all_connectors self query kwargs)) = length (get_healthy_connectors self)
    \<and> (\<forall>c \<in> snd ` set (connectors self).
          (health_check c = Inr True \<longrightarrow>
             query_all_connectors self query kwargs (c_name c) =
               Some (case query_metrics c query kwargs of Inr metrics \<Rightarrow> metrics | Inl e \<Rightarrow> []))
        \<and> (health_check c \<noteq> Inr True \<longrightarrow>
             query_all_connectors self query kwargs (c_name c) = None))"
proof -
  let ?cs = "map snd (connectors self)"
  let ?hs = "healthy_loop ?cs"
  have d: "distinct (map c_name ?cs)"
    using assms by (simp add: comp_def)
  have dh: "distinct (map c_name ?hs)"
    using d by (rule distinct_healthy_loop)
  have dom: "dom (query_all_connectors self query kwargs) = c_name ` set ?hs"
    by (simp add: query_all_connectors_def get_healthy_connectors_def dom_query_loop)
  have one: "dom (query_all_connectors self query kwargs) =
      c_name ` {c \<in> snd ` set (connectors self). health_check c = Inr True}"
    using dom by (simp add: set_healthy_loop)
  have "card (c_name ` set ?hs) = length ?hs"
    using dh by (metis distinct_card length_map set_map)
  then have two: "card (dom (query_all_connectors self query kwargs)) = length (get_healthy_connectors self)"
    using dom by (simp add: get_healthy_connectors_def)
  have three: "query_all_connectors self query kwargs (c_name c) =
      Some (case query_metrics c query kwargs of Inr metrics \<Rightarrow> metrics | Inl e \<Rightarrow> [])"
    if "c \<in> snd ` set (connectors self)" "health_check c = Inr True" for c
  proof -
    have "c \<in> set ?hs"
      using that by (simp add: set_healthy_loop)
    then show ?thesis
      using query_loop_entry [OF dh, of c query kwargs Map.empty]
      by (simp add: query_all_connectors_def get_healthy_connectors_def entry_of_def)
  qed
  have four: "query_all_connectors self query kwargs (c_name c) = None"
    if "c \<in> snd ` set (connectors self)" "health_check c \<noteq> Inr True" for c
  proof -
    have "c_name c \<notin> c_name ` set ?hs"
    proof
      assume "c_name c \<in> c_name ` set ?hs"
      then obtain h where h: "h \<in> set ?hs" "c_name h = c_name c"
        by auto
      then have hc: "h \<in> set ?cs" "health_check h = Inr True"
        by (simp_all add: set_healthy_loop)
      have "c \<in> set ?cs"
        using that(1) by simp
      then have "h = c"
        using d hc(1) h(2) by (meson distinct_map inj_onD)
      then show False
        using hc(2) that(2) by simp
    qed
    then show ?thesis
      using dom by (metis domIff)
  qed
  have ball: "\<forall>c \<in> snd ` set (connectors self).
          (health_check c = Inr True \<longrightarrow>
             query_all_connectors self query kwargs (c_name c) =
               Some (case query_metrics c query kwargs of Inr metrics \<Rightarrow> metrics | Inl e \<Rightarrow> []))
        \<and> (health_check c \<noteq> Inr True \<longrightarrow>
             query_all_connectors self query kwargs (c_name c) = None)"
  proof (intro ballI conjI impI)
    fix c
    assume "c \<in> snd ` set (connectors self)" "health_check c = Inr True"
    then show "query_all_connectors self query kwargs (c_name c) =
               Some (case query_metrics c query kwargs of Inr metrics \<Rightarrow> metrics | Inl e \<Rightarrow> [])"
      by (rule three)
  next
    fix c
    assume "c \<in> snd ` set (connectors self)" "health_check c \<noteq> Inr True"
    then show "query_all_connectors self query kwargs (c_name c) = None"
      by (rule four)
  qed
  from one two ball show ?thesis
    by (intro conjI)
qed

theorem query_all_connectors_entries_witness:
  "distinct (map (c_name \<circ> snd) (connectors three_connectors))
   \<and> query_all_connectors three_connectors ''up'' () ''prometheus'' = Some []
   \<and> query_all_connectors three_connectors ''up'' () ''azure_monitor'' = Some [4, 2]
   \<and> query_all_connectors three_connectors ''up'' () ''loki'' = None
   \<and> card (dom (query_all_connectors three_connectors ''up'' ())) = 2"
proof -
  have d: "distinct (map (c_name \<circ> snd) (connectors three_connectors))"
    by (simp add: three_connectors_def prometheus_up_def azure_up_def loki_down_def)
  note t = query_all_connectors_entries [OF d, of "''up''" "()"]
  have ball: "\<forall>c \<in> snd ` set (connectors three_connectors).
      (health_check c = Inr True \<longrightarrow>
         query_all_connectors three_connectors ''up'' () (c_name c) =
           Some (case query_metrics c ''up'' () of Inr metrics \<Rightarrow> metrics | Inl e \<Rightarrow> []))
      \<and> (health_check c \<noteq> Inr True \<longrightarrow>
         query_all_connectors three_connectors ''up'' () (c_name c) = None)"
    using t by blast
  have p: "prometheus_up \<in> snd ` set (connectors three_connectors)"
    and a: "azure_up \<in> snd ` set (connectors three_connectors)"
    and l: "loki_down \<in> snd ` set (connectors three_connectors)"
    by (simp_all add: three_connectors_def)
  have e1: "query_all_connectors three_connectors ''up'' () ''prometheus'' = Some []"
    using bspec [OF ball p] by (simp add: prometheus_up_def)
  have e2: "query_all_connectors three_connectors ''up'' () ''azure_monitor'' = Some [4, 2]"
    using bspec [OF ball a] by (simp add: azure_up_def)
  have e3: "query_all_connectors three_connectors ''up'' () ''loki'' = None"
    using bspec [OF ball l] by (simp add: loki_down_def)
  have len: "length (get_healthy_connectors three_connectors) = 2"
    by (simp add: get_healthy_connectors_def three_connectors_def prometheus_up_def azure_up_def
        loki_down_def)
  have e4: "card (dom (query_all_connectors three_connectors ''up'' ())) = 2"
    using t [THEN conjunct2, THEN conjunct1] len by simp
  show ?thesis
    using d e1 e2 e3 e4 by simp
qed

subsection \<open>The parser's override rule and its defaults\<close>

lemma extract_time_range_not_empty: "extract_time_range query \<noteq> []"
  by (simp add: extract_time_range_def Let_def split: option.split prod.split)

lemma extract_aggregation_not_empty: "extract_aggregation query \<noteq> []"
  by (simp add: extract_aggregation_def Let_def)

lemma extract_time_range_default:
  assumes "\<not> any_in [''last minute'', ''1m'', ''60s'', ''last hour'', ''1h'', ''hour ago'',
              ''today'', ''last day'', ''24h'', ''day ago'',
              ''this week'', ''last week'', ''7d'', ''week ago''] (lower query)"
  shows "extract_time_range query =
           (case time_search (lower query) of Some (digits, u) \<Rightarrow> digits @ [u] | None \<Rightarrow> ''1h'')"
  using assms by (simp add: extract_time_range_def Let_def any_in_def)

lemma extract_aggregation_default:
  assumes "\<not> any_in [''average'', ''avg'', ''mean'', ''sum'', ''total'', ''max'', ''maximum'',
              ''peak'', ''min'', ''minimum'', ''lowest''] (lower query)"
  shows "extract_aggregation query = ''avg''"
  using assms by (simp add: extract_aggregation_def Let_def any_in_def)

lemma parse_user_query_no_reply:
  "no_override (analyze_intent_with_ai reply) \<Longrightarrow>
   parse_user_query ls reply query svcs mets = baseline ls query svcs mets"
  by (simp add: parse_user_query_def baseline_def no_override_def py_get_def dict_get_def Let_def)

text \<open>
  Letters and white space beyond ASCII count as Python counts them: an upper-case unit after
  a no-break space is read as "5m".
\<close>

lemma extract_time_range_no_break_space:
  "extract_time_range (''last 5'' @ [CHR 0xA0] @ ''Min'') = ''5m''"
  by code_simp

text \<open>
  C3 (as amended). \<open>parse_user_query\<close> always returns a descriptor. When the language-model
  call fails or its reply is unparsable, the descriptor is the deterministic baseline,
  unmodified. When the reply parses, a field of the model replaces the baseline value
  whenever its key is present in the reply, whatever the value is (an empty text and null
  included). When the reply has no \<open>time_range\<close> (no \<open>aggregation\<close>), the returned one is a
  non-empty text. If moreover the lower-cased text holds none of the time keywords, the time
  range is the first number in it that is followed, after any white space, by one of the
  letters m, h, d, s, with that letter, and "1h" when there is no such number; if it holds none
  of the aggregation keywords, the aggregation is "avg".
\<close>

theorem parse_user_query_override:
  "parse_user_query ls (CallFailed e) query svcs mets = baseline ls query svcs mets
   \<and> parse_user_query ls NoJsonObject query svcs mets = baseline ls query svcs mets
   \<and> parse_user_query ls InvalidJson query svcs mets = baseline ls query svcs mets
   \<and> q_intent (parse_user_query ls (JsonObject d) query svcs mets) =
       (case map_of d ''intent'' of Some v \<Rightarrow> v | None \<Rightarrow> PStr ''unknown'')
   \<and> q_metrics (parse_user_query ls (JsonObject d) query svcs mets) =
       (case map_of d ''metrics'' of Some v \<Rightarrow> v
        | None \<Rightarrow> PList (map PStr (extract_metrics ls query mets)))
   \<and> q_services (parse_user_query ls (JsonObject d) query svcs mets) =
       (case map_of d ''services'' of Some v \<Rightarrow> v
        | None \<Rightarrow> PList (map PStr (extract_services ls query svcs)))
   \<and> q_time_range (parse_user_query ls (JsonObject d) query svcs mets) =
       (case map_of d ''time_range'' of Some v \<Rightarrow> v | None \<Rightarrow> PStr (extract_time_range query))
   \<and> q_aggregation (parse_user_query ls (JsonObject d) query svcs mets) =
       (case map_of d ''aggregation'' of Some v \<Rightarrow> v | None \<Rightarrow> PStr (extract_aggregation query))
   \<and> q_filters (parse_user_query ls (JsonObject d) query svcs mets) =
       (case map_of d ''filters'' of Some v \<Rightarrow> v | None \<Rightarrow> PDict [])
   \<and> q_query_type (parse_user_query ls (JsonObject d) query svcs mets) =
       (case map_of d ''query_type'' of Some v \<Rightarrow> v | None \<Rightarrow> PStr ''metrics'')
   \<and> q_original_query (parse_user_query ls reply query svcs mets) = query
   \<and> (map_of (analyze_intent_with_ai reply) ''time_range'' = None \<longrightarrow>
        q_time_range (parse_user_query ls reply query svcs mets) = PStr (extract_time_range query)
        \<and> extract_time_range query \<noteq> [])
   \<and> (map_of (analyze_intent_with_ai reply) ''aggregation'' = None \<longrightarrow>
        q_aggregation (parse_user_query ls reply query svcs mets) = PStr (extract_aggregation query)
        \<and> extract_aggregation query \<noteq> [])
   \<and> (\<not> any_in [''last minute'', ''1m'', ''60s'', ''last hour'', ''1h'', ''hour ago'',
              ''today'', ''last day'', ''24h'', ''day ago'',
              ''this week'', ''last week'', ''7d'', ''week ago''] (lower query) \<longrightarrow>
        extract_time_range query =
          (case time_search (lower query) of Some (digits, u) \<Rightarrow> digits @ [u] | None \<Rightarrow> ''1h''))
   \<and> (\<not> any_in [''average'', ''avg'', ''mean'', ''sum'', ''total'', ''max'', ''maximum'',
              ''peak'', ''min'', ''minimum'', ''lowest''] (lower query) \<longrightarrow>
        extract_aggregation query = ''avg'')"
proof -
  have base: "parse_user_query ls r query svcs mets = baseline ls query svcs mets"
    if "analyze_intent_with_ai r = []" for r
    using that by (simp add: parse_user_query_no_reply no_override_def)
  have f1: "q_intent (parse_user_query ls (JsonObject d) query svcs mets) =
       (case map_of d ''intent'' of Some v \<Rightarrow> v | None \<Rightarrow> PStr ''unknown'')"
    and f2: "q_metrics (parse_user_query ls (JsonObject d) query svcs mets) =
       (case map_of d ''metrics'' of Some v \<Rightarrow> v
        | None \<Rightarrow> PList (map PStr (extract_metrics ls query mets)))"
    and f3: "q_services (parse_user_query ls (JsonObject d) query svcs mets) =
       (case map_of d ''services'' of Some v \<Rightarrow> v
        | None \<Rightarrow> PList (map PStr (extract_services ls query svcs)))"
    and f4: "q_time_range (parse_user_query ls (JsonObject d) query svcs mets) =
       (case map_of d ''time_range'' of Some v \<Rightarrow> v | None \<Rightarrow> PStr (extract_time_range query))"
    and f5: "q_aggregation (parse_user_query ls (JsonObject d) query svcs mets) =
       (case map_of d ''aggregation'' of Some v \<Rightarrow> v | None \<Rightarrow> PStr (extract_aggregation query))"
    and f6: "q_filters (parse_user_query ls (JsonObject d) query svcs mets) =
       (case map_of d ''filters'' of Some v \<Rightarrow> v | None \<Rightarrow> PDict [])"
    and f7: "q_query_type (parse_user_query ls (JsonObject d) query svcs mets) =
       (case map_of d ''query_type'' of Some v \<Rightarrow> v | None \<Rightarrow> PStr ''metrics'')"
    by (simp_all add: parse_user_query_def py_get_def dict_get_def str_list_def)
  have orig: "q_original_query (parse_user_query ls reply query svcs mets) = query"
    by (simp add: parse_user_query_def Let_def)
  have tr: "map_of (analyze_intent_with_ai reply) ''time_range'' = None \<longrightarrow>
        q_time_range (parse_user_query ls reply query svcs mets) = PStr (extract_time_range query)
        \<and> extract_time_range query \<noteq> []"
    by (simp add: parse_user_query_def py_get_def dict_get_def Let_def extract_time_range_not_empty)
  have ag: "map_of (analyze_intent_with_ai reply) ''aggregation'' = None \<longrightarrow>
        q_aggregation (parse_user_query ls reply query svcs mets) = PStr (extract_aggregation query)
        \<and> extract_aggregation query \<noteq> []"
    by (simp add: parse_user_query_def py_get_def dict_get_def Let_def
        extract_aggregation_not_empty)
  have dt: "\<not> any_in [''last minute'', ''1m'', ''60s'', ''last hour'', ''1h'', ''hour ago'',
              ''today'', ''last day'', ''24h'', ''day ago'',
              ''this week'', ''last week'', ''7d'', ''week ago''] (lower query) \<longrightarrow>
        extract_time_range query =
          (case time_search (lower query) of Some (digits, u) \<Rightarrow> digits @ [u] | None \<Rightarrow> ''1h'')"
    using extract_time_range_default by blast
  have da: "\<not> any_in [''average'', ''avg'', ''mean'', ''sum'', ''total'', ''max'', ''maximum'',
              ''peak'', ''min'', ''minimum'', ''lowest''] (lower query) \<longrightarrow>
        extract_aggregation query = ''avg''"
    using extract_aggregation_default by blast
  have b1: "parse_user_query ls (CallFailed e) query svcs mets = baseline ls query svcs mets"
    and b2: "parse_user_query ls NoJsonObject query svcs mets = baseline ls query svcs mets"
    and b3: "parse_user_query ls InvalidJson query svcs mets = baseline ls query svcs mets"
    by (simp_all add: base)
  show ?thesis
    by (intro conjI) (fact b1 b2 b3 f1 f2 f3 f4 f5 f6 f7 orig tr ag dt da)+
qed

theorem parse_user_query_override_witness:
  "parse_user_query remdups (CallFailed TimeoutError) ''show cpu'' [] [] =
     baseline remdups ''show cpu'' [] []
   \<and> q_time_range (parse_user_query remdups NoJsonObject ''show cpu'' [] []) = PStr ''1h''
   \<and> q_aggregation (parse_user_query remdups NoJsonObject ''show cpu'' [] []) = PStr ''avg''
   \<and> q_time_range (parse_user_query remdups InvalidJson ''cpu in the last 15 Min'' [] []) =
       PStr ''15m''
   \<and> q_aggregation (parse_user_query remdups
         (JsonObject [(''aggregation'', PStr ''max'')]) ''show cpu'' [] []) = PStr ''max''"
proof -
  note t = parse_user_query_override [of remdups TimeoutError "''show cpu''" "[]" "[]"
      "[(''aggregation'', PStr ''max'')]" NoJsonObject]
  note u = parse_user_query_override [of remdups TimeoutError "''cpu in the last 15 Min''" "[]" "[]"
      "[]" InvalidJson]
  have n: "map_of (analyze_intent_with_ai NoJsonObject) ''time_range'' = None"
    "map_of (analyze_intent_with_ai NoJsonObject) ''aggregation'' = None"
    "map_of (analyze_intent_with_ai InvalidJson) ''time_range'' = None"
    by simp_all
  have k1: "\<not> any_in [''last minute'', ''1m'', ''60s'', ''last hour'', ''1h'', ''hour ago'',
              ''today'', ''last day'', ''24h'', ''day ago'',
              ''this week'', ''last week'', ''7d'', ''week ago''] (lower ''show cpu'')"
    by code_simp
  have k2: "time_search (lower ''show cpu'') = None"
    by code_simp
  have k3: "\<not> any_in [''average'', ''avg'', ''mean'', ''sum'', ''total'', ''max'', ''maximum'',
              ''peak'', ''min'', ''minimum'', ''lowest''] (lower ''show cpu'')"
    by code_simp
  have k4: "\<not> any_in [''last minute'', ''1m'', ''60s'', ''last hour'', ''1h'', ''hour ago'',
              ''today'', ''last day'', ''24h'', ''day ago'',
              ''this week'', ''last week'', ''7d'', ''week ago''] (lower ''cpu in the last 15 Min'')"
    by code_simp
  have k5: "time_search (lower ''cpu in the last 15 Min'') = Some (''15'', CHR ''m'')"
    by code_simp
  have c1: "parse_user_query remdups (CallFailed TimeoutError) ''show cpu'' [] [] =
      baseline remdups ''show cpu'' [] []"
    using t by blast
  have "extract_time_range ''show cpu'' =
      (case time_search (lower ''show cpu'') of Some (digits, u) \<Rightarrow> digits @ [u] | None \<Rightarrow> ''1h'')"
    using t k1 by blast
  then have e1: "extract_time_range ''show cpu'' = ''1h''"
    by (simp add: k2)
  have "q_time_range (parse_user_query remdups NoJsonObject ''show cpu'' [] []) =
      PStr (extract_time_range ''show cpu'')"
    using t n(1) by blast
  then have c2: "q_time_range (parse_user_query remdups NoJsonObject ''show cpu'' [] []) = PStr ''1h''"
    by (simp add: e1)
  have e3: "extract_aggregation ''show cpu'' = ''avg''"
    using t k3 by blast
  have "q_aggregation (parse_user_query remdups NoJsonObject ''show cpu'' [] []) =
      PStr (extract_aggregation ''show cpu'')"
    using t n(2) by blast
  then have c3: "q_aggregation (parse_user_query remdups NoJsonObject ''show cpu'' [] []) = PStr ''avg''"
    by (simp add: e3)
  have "extract_time_range ''cpu in the last 15 Min'' =
      (case time_search (lower ''cpu in the last 15 Min'') of
         Some (digits, u) \<Rightarrow> digits @ [u] | None \<Rightarrow> ''1h'')"
    using u k4 by blast
  then have e2: "extract_time_range ''cpu in the last 15 Min'' = ''15m''"
    by (simp add: k5)
  have "q_time_range (parse_user_query remdups InvalidJson ''cpu in the last 15 Min'' [] []) =
      PStr (extract_time_range ''cpu in the last 15 Min'')"
    using u n(3) by blast
  then have c4: "q_time_range (parse_user_query remdups InvalidJson ''cpu in the last 15 Min'' [] []) =
      PStr ''15m''"
    by (simp add: e2)
  have "q_aggregation (parse_user_query remdups
         (JsonObject [(''aggregation'', PStr ''max'')]) ''show cpu'' [] []) =
      (case map_of [(''aggregation'', PStr ''max'')] ''aggregation'' of
         Some v \<Rightarrow> v | None \<Rightarrow> PStr (extract_aggregation ''show cpu''))"
    using t by blast
  then have c5: "q_aggregation (parse_user_query remdups
         (JsonObject [(''aggregation'', PStr ''max'')]) ''show cpu'' [] []) = PStr ''max''"
    by simp
  show ?thesis
    using c1 c2 c3 c4 c5 by blast
qed

text \<open>
  The claim as first stated fails in two places. A reply whose \<open>time_range\<close> is present and
  empty, or null, replaces the baseline "1h", and the returned \<open>time_range\<close> is empty, or
  null. And the text "top 3 services" holds none of the time keywords, yet its time range is
  "3s": the numeric pattern takes the number before any word that begins with m, h, d or s.
\<close>

theorem parse_user_query_empty_override:
  "q_time_range (parse_user_query remdups
       (JsonObject [(''time_range'', PStr '''')]) ''show cpu'' [] []) = PStr ''''
   \<and> q_aggregation (parse_user_query remdups
       (JsonObject [(''aggregation'', PNone)]) ''show cpu'' [] []) = PNone
   \<and> q_time_range (baseline remdups ''show cpu'' [] []) = PStr ''1h''
   \<and> q_aggregation (baseline remdups ''show cpu'' [] []) = PStr ''avg''
   \<and> \<not> any_in [''last minute'', ''1m'', ''60s'', ''last hour'', ''1h'', ''hour ago'',
              ''today'', ''last day'', ''24h'', ''day ago'',
              ''this week'', ''last week'', ''7d'', ''week ago''] (lower ''top 3 services'')
   \<and> q_time_range (parse_user_query remdups NoJsonObject ''top 3 services'' [] []) = PStr ''3s''"
  by code_simp

subsection \<open>The Prometheus translator\<close>

lemma generate_prometheus_query_needs_metrics:
  "\<not> truthy (q_metrics c) \<Longrightarrow> q_intent c \<noteq> PStr ''alerts'' \<Longrightarrow> generate_prometheus_query c = None"
  by (simp add: generate_prometheus_query_def query_body_def)

text \<open>
  C4. The claim asks for "up" for the health intent and when no metric names were given. The
  guard before the mapping returns no query whenever the metric names are empty and the
  intent is not alerts: a health descriptor without metric names, and any other descriptor
  without them, gets \<open>None\<close>. The health branch works once a metric name is present, and the
  alerts intent is served without any.
\<close>

theorem generate_prometheus_query_no_metrics:
  "generate_prometheus_query (c\<lparr>q_intent := PStr ''health'', q_metrics := PList []\<rparr>) = None
   \<and> generate_prometheus_query (c\<lparr>q_intent := PStr ''unknown'', q_metrics := PList []\<rparr>) = None
   \<and> generate_prometheus_query (c\<lparr>q_intent := PStr ''health'', q_metrics := PList [PStr ''up'']\<rparr>) =
       Some ''up''
   \<and> generate_prometheus_query (c\<lparr>q_intent := PStr ''alerts'', q_metrics := PList []\<rparr>) =
       Some ''ALERTS{alertstate=\"firing\"}''"
  by (simp add: generate_prometheus_query_def query_body_def)

text \<open>
  A descriptor need not hold the types the parser's baseline gives it: the language model's
  values are passed on as they are. What then raises inside the \<open>try\<close> block (a number
  among the metric names, a number for the metric names) yields \<open>None\<close>; what does not raise
  is processed as Python does (a text for the metric names is searched as a text, a text for
  the services is joined character by character, a number for the aggregation selects
  \<open>avg\<close>).
\<close>

lemma generate_prometheus_query_ill_typed:
  "generate_prometheus_query (c\<lparr>q_intent := PStr ''unknown'', q_metrics := PList [PNum 5],
      q_original_query := ''x''\<rparr>) = None"
  "generate_prometheus_query (c\<lparr>q_intent := PStr ''cpu'', q_metrics := PNum 5,
      q_original_query := ''x''\<rparr>) = None"
  "generate_prometheus_query (c\<lparr>q_intent := PStr ''cpu'', q_metrics := PStr ''cpu'',
      q_services := PStr ''ab'', q_aggregation := PNum 1, q_original_query := ''x''\<rparr>) =
     Some ''avg by (job) (rate(cpu_seconds_total[5m]) * 100{job=~\"a|b\"})''"
  by (simp_all add: generate_prometheus_query_def query_body_def base_query_of_def
      domain_test_def bind_err_def py_join_def add_service_filter_def add_aggregation_def
      lower_def)

subsection \<open>The memory-usage scenario\<close>

lemma singleton_list_set:
  assumes "is_list_set ls" and "set xs = {x}"
  shows "ls xs = [x]"
proof -
  have s: "set (ls xs) = {x}" and d: "distinct (ls xs)"
    using assms by (simp_all add: is_list_set_def)
  from s obtain y ys where l: "ls xs = y # ys"
    by (cases "ls xs") auto
  with s have "y = x" "set ys \<subseteq> {x}"
    by auto
  moreover have "x \<notin> set ys"
    using d l \<open>y = x\<close> by simp
  ultimately have "ys = []"
    by (cases ys) auto
  with l \<open>y = x\<close> show ?thesis
    by simp
qed

lemma scenario_lower: "lower scenario_query = scenario_query"
  by code_simp

lemma scenario_quoted: "findall_quoted scenario_query = [''s the memory usage for service '']"
  by code_simp

lemma scenario_categories:
  "map (\<lambda>entry. any_in (snd entry) scenario_query) metric_patterns =
     [False, True, False, False, False, False, False]"
  by code_simp

lemma scenario_aggregation: "extract_aggregation scenario_query = ''avg''"
  by code_simp

lemma take_singleton_set:
  assumes "xs \<noteq> []" and "set xs \<subseteq> {x}"
  shows "set (take 3 xs) = {x}"
proof -
  have "take 3 xs \<noteq> []"
    using assms(1) by simp
  then obtain y where "y \<in> set (take 3 xs)"
    by (cases "take 3 xs") auto
  moreover have "set (take 3 xs) \<subseteq> {x}"
    using assms(2) set_take_subset [of 3 xs] by blast
  ultimately show ?thesis
    by blast
qed

lemma scenario_facts:
  "\<not> contains ''memory_usage_percent'' scenario_query"
  "contains ''checkout'' scenario_query"
  "contains ''s the memory usage for service '' scenario_query"
  "\<not> contains ''health'' scenario_query"
  by code_simp+

lemma scenario_metrics:
  assumes ls: "is_list_set ls"
    and m1: "''memory_usage_percent'' \<in> set mets"
    and m2: "\<forall>m \<in> set mets. m \<noteq> ''memory_usage_percent'' \<longrightarrow>
               \<not> contains ''memory'' (lower m) \<and> \<not> contains (lower m) scenario_query"
  shows "extract_metrics ls scenario_query mets = [''memory_usage_percent'']"
proof -
  let ?mem = "''memory_usage_percent''"
  have lm: "lower ?mem = ?mem"
    by code_simp
  have direct: "filter (\<lambda>metric. contains (lower metric) scenario_query) mets = []"
    using m2 scenario_facts(1) lm by (auto simp: filter_empty_conv)
  have pm: "contains ''memory'' (lower ?mem)"
    by (simp add: lm)
  let ?f = "filter (\<lambda>m. contains ''memory'' (lower m)) mets"
  have "?f \<noteq> []"
    using m1 pm by (auto simp: filter_empty_conv)
  moreover have "set ?f \<subseteq> {?mem}"
    using m2 by auto
  ultimately have cat: "set (take 3 ?f) = {?mem}"
    by (rule take_singleton_set)
  have bycat: "concat (map (category_matches scenario_query mets) metric_patterns) = take 3 ?f"
    using scenario_categories
    by (simp add: metric_patterns_def category_matches_def)
  have "extract_metrics ls scenario_query mets = ls (take 3 ?f)"
    by (simp add: extract_metrics_def Let_def scenario_lower direct bycat)
  then show ?thesis
    using singleton_list_set [OF ls cat] by simp
qed

lemma scenario_services:
  assumes ls: "is_list_set ls"
    and s1: "''checkout'' \<in> set svcs"
    and s2: "\<forall>s \<in> set svcs. s \<noteq> ''checkout'' \<longrightarrow> \<not> contains (lower s) scenario_query"
  shows "extract_services ls scenario_query svcs = [''checkout'']"
proof -
  have lc: "lower ''checkout'' = ''checkout''"
    by code_simp
  have lq: "lower ''s the memory usage for service '' = ''s the memory usage for service ''"
    by code_simp
  let ?d = "filter (\<lambda>service. contains (lower service) scenario_query) svcs"
  have d: "set ?d = {''checkout''}"
    using s1 s2 scenario_facts(2) lc by auto
  have "''s the memory usage for service '' \<notin> set svcs"
  proof
    assume "''s the memory usage for service '' \<in> set svcs"
    then have "\<not> contains (lower ''s the memory usage for service '') scenario_query"
      using s2 by fastforce
    then show False
      using scenario_facts(3) lq by simp
  qed
  then have q: "filter (\<lambda>m. m \<in> set svcs) (findall_quoted scenario_query) = []"
    by (simp add: scenario_quoted)
  have "extract_services ls scenario_query svcs = ls ?d"
    by (simp add: extract_services_def Let_def scenario_lower q)
  then show ?thesis
    using singleton_list_set [OF ls d] by simp
qed

text \<open>
  C9 (as amended). For the text "what's the memory usage for service 'checkout'", available
  metrics in which memory\_usage\_percent is the only name that contains "memory" or occurs in
  the text, available services in which checkout is the only name that occurs in the text,
  and a language-model stage that contributes no field, the descriptor has metrics
  [memory\_usage\_percent], services [checkout] and aggregation avg, and the translated query is
  the memory metric with a job matcher for checkout, wrapped in avg by (job). This holds for
  every iteration order of the sets the parser builds.
\<close>

theorem memory_usage_scenario:
  assumes "is_list_set ls"
    and "no_override (analyze_intent_with_ai reply)"
    and "''memory_usage_percent'' \<in> set mets"
    and "\<forall>m \<in> set mets. m \<noteq> ''memory_usage_percent'' \<longrightarrow>
           \<not> contains ''memory'' (lower m) \<and> \<not> contains (lower m) scenario_query"
    and "''checkout'' \<in> set svcs"
    and "\<forall>s \<in> set svcs. s \<noteq> ''checkout'' \<longrightarrow> \<not> contains (lower s) scenario_query"
  shows "q_metrics (parse_user_query ls reply scenario_query svcs mets) =
        PList [PStr ''memory_usage_percent'']
    \<and> q_services (parse_user_query ls reply scenario_query svcs mets) = PList [PStr ''checkout'']
    \<and> q_aggregation (parse_user_query ls reply scenario_query svcs mets) = PStr ''avg''
    \<and> generate_prometheus_query (parse_user_query ls reply scenario_query svcs mets) =
        Some ''avg by (job) (memory_usage_percent{job=~\"checkout\"})''"
proof -
  let ?d = "parse_user_query ls reply scenario_query svcs mets"
  have b: "?d = baseline ls scenario_query svcs mets"
    using assms(2) by (rule parse_user_query_no_reply)
  have d: "?d =
      \<lparr>q_intent = PStr ''unknown'', q_metrics = PList [PStr ''memory_usage_percent''],
       q_services = PList [PStr ''checkout''],
       q_time_range = PStr (extract_time_range scenario_query),
       q_aggregation = PStr ''avg'', q_filters = PDict [], q_query_type = PStr ''metrics'',
       q_original_query = scenario_query\<rparr>"
    using scenario_metrics [OF assms(1) assms(3) assms(4)]
      scenario_services [OF assms(1) assms(5) assms(6)]
    by (simp add: b baseline_def str_list_def scenario_aggregation)
  have g: "generate_prometheus_query
      \<lparr>q_intent = PStr ''unknown'', q_metrics = PList [PStr ''memory_usage_percent''],
       q_services = PList [PStr ''checkout''],
       q_time_range = PStr (extract_time_range scenario_query),
       q_aggregation = PStr ''avg'', q_filters = PDict [], q_query_type = PStr ''metrics'',
       q_original_query = scenario_query\<rparr> =
      Some ''avg by (job) (memory_usage_percent{job=~\"checkout\"})''"
    by code_simp
  show ?thesis
    unfolding d using g by simp
qed

theorem memory_usage_scenario_witness:
  "q_metrics (parse_user_query remdups NoJsonObject scenario_query
       [''payments'', ''checkout''] [''cpu_usage_percent'', ''memory_usage_percent'', ''up'']) =
     PList [PStr ''memory_usage_percent'']
   \<and> q_services (parse_user_query remdups NoJsonObject scenario_query
       [''payments'', ''checkout''] [''cpu_usage_percent'', ''memory_usage_percent'', ''up'']) =
     PList [PStr ''checkout'']
   \<and> q_aggregation (parse_user_query remdups NoJsonObject scenario_query
       [''payments'', ''checkout''] [''cpu_usage_percent'', ''memory_usage_percent'', ''up'']) =
     PStr ''avg''
   \<and> generate_prometheus_query (parse_user_query remdups NoJsonObject scenario_query
       [''payments'', ''checkout''] [''cpu_usage_percent'', ''memory_usage_percent'', ''up'']) =
     Some ''avg by (job) (memory_usage_percent{job=~\"checkout\"})''"
proof -
  have h1: "is_list_set remdups"
    by (simp add: is_list_set_def)
  have h2: "no_override (analyze_intent_with_ai NoJsonObject)"
    by (simp add: no_override_def)
  have h3: "''memory_usage_percent'' \<in> set [''cpu_usage_percent'', ''memory_usage_percent'', ''up'']"
    by simp
  have h4: "\<forall>m \<in> set [''cpu_usage_percent'', ''memory_usage_percent'', ''up''].
      m \<noteq> ''memory_usage_percent'' \<longrightarrow>
        \<not> contains ''memory'' (lower m) \<and> \<not> contains (lower m) scenario_query"
    by code_simp
  have h5: "''checkout'' \<in> set [''payments'', ''checkout'']"
    by simp
  have h6: "\<forall>s \<in> set [''payments'', ''checkout''].
      s \<noteq> ''checkout'' \<longrightarrow> \<not> contains (lower s) scenario_query"
    by code_simp
  show ?thesis
    by (rule memory_usage_scenario [OF h1 h2 h3 h4 h5 h6])
qed

text \<open>
  The claim as first stated fails when a second available metric matches the memory
  category: both names are returned.
\<close>

theorem memory_usage_scenario_two_metrics:
  "q_metrics (parse_user_query remdups NoJsonObject scenario_query [''checkout'']
       [''memory_usage_percent'', ''memory_working_set_bytes'']) =
     PList [PStr ''memory_usage_percent'', PStr ''memory_working_set_bytes'']
   \<and> q_services (parse_user_query remdups NoJsonObject scenario_query [''checkout'', ''check'']
       [''memory_usage_percent'']) = PList [PStr ''checkout'', PStr ''check'']"
  by code_simp

subsection \<open>The value of a cloud metric point\<close>

lemma point_value_first_nonzero:
  "point_value point =
     (if pt_average point \<noteq> None \<and> pt_average point \<noteq> Some 0 then pt_average point
      else if pt_maximum point \<noteq> None \<and> pt_maximum point \<noteq> Some 0 then pt_maximum point
      else if pt_minimum point \<noteq> None \<and> pt_minimum point \<noteq> Some 0 then pt_minimum point
      else pt_total point)"
  by (simp add: point_value_def py_or_def split: option.split)

text \<open>
  C6. The claim asks for the average whenever it is present, a zero included, and for one
  sample per time-stamped point that has an aggregate. The code takes the first aggregate
  that is neither absent nor zero: a point with average 0 and maximum 5 gets the value 5, and
  a point whose only aggregate is an average of 0 gets no value and yields no sample.
\<close>

theorem point_value_skips_zero:
  "point_value zero_average_point = Some 5
   \<and> point_value only_zero_point = None
   \<and> parse_point (\<lambda>s. Inr (PDatetime s)) now metric_name unit_name labels only_zero_point = Inr []
   \<and> parse_azure_metrics (\<lambda>s. Inr (PDatetime s)) now
        [\<lparr>am_name = Some ''Percentage CPU'', am_unit = Some ''Percent'',
          am_timeseries = [\<lparr>ts_metadatavalues = [], ts_data = [only_zero_point]\<rparr>]\<rparr>]
        resource_id = Inr []"
proof -
  have p: "parse_point (\<lambda>s. Inr (PDatetime s)) now n u l only_zero_point = Inr []" for n u l
    by (simp add: parse_point_def point_value_def py_or_def only_zero_point_def bind_err_def)
  show ?thesis
    by (simp add: p parse_azure_metrics_def bind_err_def)
      (simp add: point_value_def py_or_def zero_average_point_def only_zero_point_def)
qed

subsection \<open>The severity of an alert\<close>







text \<open>
  The severity the parsers compute is the backend's own, not one of the three: "sev1" for a
  cloud alert of severity Sev1, "sev3" for one without severity, "page" for an Alertmanager
  alert labelled so. It would show in the returned alerts if their construction succeeded.
\<close>

lemma severity_argument_not_normalized:
  "azure_severity (al_essentials sev1_alert) = ''sev1''
   \<and> ''sev1'' \<notin> set normalized_severities
   \<and> azure_severity [] = ''sev3''
   \<and> ''sev3'' \<notin> set normalized_severities
   \<and> alertmanager_severity (pa_labels page_alert) = ''page''
   \<and> ''page'' \<notin> set normalized_severities"
  by code_simp

subsection \<open>The conversation history\<close>

lemma ChatMessage_needs_type:
  "map_of kw ''type'' = None \<Longrightarrow> BaseModel_init (ChatMessage_class now) kw = Inl ValidationError"
  by (simp add: BaseModel_init_def ChatMessage_class_def)

lemma load_message_raises: "\<exists>e. load_message fromisoformat now msg_data = Inl e"
proof -
  have "BaseModel_init (ChatMessage_class now)
          [(''content'', c), (''sender'', s), (''timestamp'', t), (''metadata'', m)] =
        Inl ValidationError" for c s t m
    by (rule ChatMessage_needs_type) simp
  then show ?thesis
    by (auto simp: load_message_def bind_err_def split: sum.splits)
qed

lemma history_loop_keeps:
  "history_loop fromisoformat now items messages = Inr messages
   \<or> (\<exists>e. history_loop fromisoformat now items messages = Inl e)"
proof (induction items)
  case Nil
  then show ?case by simp
next
  case (Cons msg_data rest)
  obtain e where "load_message fromisoformat now msg_data = Inl e"
    using load_message_raises by blast
  then show ?case
    using Cons.IH by simp
qed

lemma get_conversation_history_empty:
  "get_conversation_history fromisoformat now r session_id limit = []"
  using history_loop_keeps
    [of fromisoformat now "lrange r (''conversation:'' @ session_id) 0 (limit - 1)" "[]"]
  by (auto simp: get_conversation_history_def)

lemma message_data_needs_sender:
  "map_of message ''sender'' = None \<Longrightarrow> \<exists>e. message_data message = Inl e"
  by (auto simp: message_data_def bind_err_def getattr_def split: sum.splits option.splits)

lemma store_message_no_sender:
  "map_of message ''sender'' = None \<Longrightarrow> store_message r session_id message = r"
  using message_data_needs_sender [of message]
  by (auto simp: store_message_def)

lemma redis_range_length: "1 \<le> n \<Longrightarrow> length (redis_range xs 0 (n - 1)) \<le> nat n"
  by (auto simp: redis_range_def Let_def)

text \<open>
  The store commands themselves keep the bound: whenever \<open>_store_message\<close> gets as far as
  the push, the list it leaves holds at most 50 elements, the pushed one at its head.
\<close>

lemma store_message_cap:
  assumes "message_data message = Inr data"
  shows "length (lists (store_message r session_id message) (''conversation:'' @ session_id)) \<le> 50"
    and "hd (lists (store_message r session_id message) (''conversation:'' @ session_id)) = Json data"
proof -
  let ?key = "''conversation:'' @ session_id"
  have l: "lists (store_message r session_id message) ?key =
      redis_range (Json data # lists r ?key) 0 49"
    using assms
    by (simp add: store_message_def expire_def ltrim_def lpush_def max_conversation_length_def
        Let_def)
  show "length (lists (store_message r session_id message) ?key) \<le> 50"
    unfolding l using redis_range_length [of 50 "Json data # lists r ?key"] by simp
  show "hd (lists (store_message r session_id message) ?key) = Json data"
    unfolding l by (auto simp: redis_range_def Let_def min_def)
qed

text \<open>
  C5. The claim asks that a stored message can be read back. \<open>ChatMessage\<close> of models.py
  declares \<open>type\<close>, \<open>content\<close>, \<open>timestamp\<close> and \<open>metadata\<close>; \<open>_store_message\<close> reads
  \<open>message.sender\<close>, so for a message of that class it stores nothing, and
  \<open>_get_conversation_history\<close> constructs \<open>ChatMessage\<close> without \<open>type\<close>, so it returns the
  empty list whatever the store holds.
\<close>

theorem stored_message_not_retrievable:
  "BaseModel_init (ChatMessage_class ''2024-06-01T12:00:00'')
       [(''type'', PStr ''user''), (''content'', PStr ''hello'')] = Inr hello_message
   \<and> store_message r session_id hello_message = r
   \<and> get_conversation_history fromisoformat now (store_message r session_id hello_message)
        session_id limit = []
   \<and> get_conversation_history fromisoformat now r' session_id limit = []"
proof -
  have i: "BaseModel_init (ChatMessage_class ''2024-06-01T12:00:00'')
       [(''type'', PStr ''user''), (''content'', PStr ''hello'')] = Inr hello_message"
    by (simp add: BaseModel_init_def ChatMessage_class_def hello_message_def dict_get_def)
  have s: "store_message r session_id hello_message = r"
    by (rule store_message_no_sender) (simp add: hello_message_def)
  show ?thesis
    using i s by (simp add: get_conversation_history_empty)
qed

subsection \<open>A turn of the conversation engine\<close>

text \<open>
  C8. The claim asks that \<open>process_message\<close> always returns an assistant message. Its first
  statement constructs \<open>ChatMessage\<close> without the required field \<open>type\<close>, which raises
  \<open>ValidationError\<close>; the \<open>except\<close> block constructs the error message the same way, and
  that second \<open>ValidationError\<close> reaches the caller. The store is left as it was.
\<close>

theorem process_message_raises:
  "process_message fromisoformat now respond connector_names r message session_id =
     (Inl ValidationError, r)"
proof -
  have u: "BaseModel_init (ChatMessage_class now)
             [(''content'', PStr message), (''sender'', PStr ''user''),
              (''timestamp'', PDatetime now)] = Inl ValidationError"
    by (rule ChatMessage_needs_type) simp
  have h: "process_message_except now r session_id e = (Inl ValidationError, r)" for e
  proof -
    have "BaseModel_init (ChatMessage_class now)
             [(''content'',
                 PStr (''I encountered an error processing your request: '' @ str_error e @
                       ''. Please try rephrasing your question.'')),
              (''sender'', PStr ''assistant''),
              (''timestamp'', PDatetime now),
              (''metadata'', PDict [(''error'', PStr (str_error e))])] = Inl ValidationError"
      by (rule ChatMessage_needs_type) simp
    then show ?thesis
      by (simp add: process_message_except_def)
  qed
  show ?thesis
    by (simp add: process_message_def u h)
qed

end
